theory Spec2Isabelle
  imports Complex_Main "HOL-Library.Sublist" "HOL-Library.Word"
begin

section \<open>JavaScript values, objects and the store\<close>

text \<open>
  The document class (\<open>NVDocument\<close>) and the connectome class (\<open>NVConnectome\<close>) are
  TypeScript classes working on plain JavaScript objects. Class instances are modelled as
  records. Plain objects that the code spreads (\<open>{ ...o }\<close>), probes with \<open>in\<close> or
  deletes keys from are maps from property names to values. Objects and arrays that can be
  reached through more than one reference live in a store and are named by their address.
\<close>

type_synonym ref = nat

text \<open>A JavaScript number: a finite value or one of the three non-finite ones.\<close>

datatype jsnum = Finite rat | PosInf | NegInf | NaN

datatype jsval =
    VUndefined
  | VNull
  | VBool bool
  | VNum jsnum
  | VStr string
  | VObj ref
  | VArr ref

type_synonym jsobj = "string \<rightharpoonup> jsval"

text \<open>Property read \<open>o.k\<close>: \<open>undefined\<close> when the object has no such property.\<close>

definition getProp :: "jsobj \<Rightarrow> string \<Rightarrow> jsval" where
  "getProp ob k = (case ob k of None \<Rightarrow> VUndefined | Some v \<Rightarrow> v)"

text \<open>Truthiness, as tested by \<open>if (x)\<close>, \<open>!x\<close> and \<open>x || y\<close>.\<close>

fun truthy :: "jsval \<Rightarrow> bool" where
  "truthy VUndefined = False"
| "truthy VNull = False"
| "truthy (VBool b) = b"
| "truthy (VNum n) = (n \<noteq> Finite 0 \<and> n \<noteq> NaN)"
| "truthy (VStr s) = (s \<noteq> [])"
| "truthy (VObj r) = True"
| "truthy (VArr r) = True"

text \<open>
  A store of cells of one type: the cell at every address, and the next address that
  \<open>alloc\<close> hands out. Addresses below \<open>next_free\<close> are the allocated ones.
\<close>

record 'a store =
  cells :: "ref \<Rightarrow> 'a"
  next_free :: ref

definition alloc :: "'a \<Rightarrow> 'a store \<Rightarrow> ref \<times> 'a store" where
  "alloc v s = (next_free s, \<lparr>cells = (cells s)(next_free s := v), next_free = Suc (next_free s)\<rparr>)"

definition assign :: "ref \<Rightarrow> 'a \<Rightarrow> 'a store \<Rightarrow> 'a store" where
  "assign r v s = s\<lparr>cells := (cells s)(r := v)\<rparr>"

text \<open>
  The heap keeps one store per TypeScript type, so that a load-option record, an options
  record and a number array never share an address:
  \<open>imageOptionsObjs\<close> holds the \<open>ImageFromUrlOptions\<close> objects,
  \<open>configObjs\<close> the \<open>NVConfigOptions\<close> objects and \<open>arrays\<close> the
  arrays these objects refer to.
\<close>

record heap =
  imageOptionsObjs :: "jsobj store"
  configObjs :: "jsobj store"
  arrays :: "jsval list store"

text \<open>\<open>o.k = v\<close> on a load-option record, on an options record, and \<open>a[i] = v\<close>.\<close>

definition setImageOption :: "ref \<Rightarrow> string \<Rightarrow> jsval \<Rightarrow> heap \<Rightarrow> heap" where
  "setImageOption r k v h =
     h\<lparr>imageOptionsObjs := assign r ((cells (imageOptionsObjs h) r)(k \<mapsto> v)) (imageOptionsObjs h)\<rparr>"

definition setConfigOption :: "ref \<Rightarrow> string \<Rightarrow> jsval \<Rightarrow> heap \<Rightarrow> heap" where
  "setConfigOption r k v h =
     h\<lparr>configObjs := assign r ((cells (configObjs h) r)(k \<mapsto> v)) (configObjs h)\<rparr>"

definition setArrayElement :: "ref \<Rightarrow> nat \<Rightarrow> jsval \<Rightarrow> heap \<Rightarrow> heap" where
  "setArrayElement a i v h =
     h\<lparr>arrays := assign a ((cells (arrays h) a)[i := v]) (arrays h)\<rparr>"

definition imageOption :: "heap \<Rightarrow> ref \<Rightarrow> string \<Rightarrow> jsval" where
  "imageOption h r k = getProp (cells (imageOptionsObjs h) r) k"

definition configOption :: "heap \<Rightarrow> ref \<Rightarrow> string \<Rightarrow> jsval" where
  "configOption h r k = getProp (cells (configObjs h) r) k"

section \<open>Errors and outcomes\<close>

datatype error =
    TypeError string
  | SyntaxError
  | BaseOptionsNotFound
  | NodesNotDefined
  | NodeNotFound "jsnum list"
  | EdgeNotFound int int
  | NodeColorRangeUndefined
  | EdgeRangeUndefined
  | GeometryFailure string

text \<open>A call either returns a value or throws; the state reached is returned beside it.\<close>

datatype 'a outcome = Return 'a | Throw error

section \<open>The document and its collaborators\<close>

text \<open>
  A live volume (\<open>NVImage\<close>): the fields the document reads. \<open>cal_min\<close> and
  \<open>cal_max\<close> are optional numbers.
\<close>

record NVImage =
  img_id :: string
  colormap :: string
  colormapLabel :: jsval
  opacity :: jsnum
  cal_min :: "jsnum option"
  cal_max :: "jsnum option"

text \<open>
  A mesh: whether its type is \<open>MeshType.CONNECTOME\<close>, its layers, and its other fields.
\<close>

record NVMesh =
  isConnectome :: bool
  layers :: "jsobj list"
  meshFields :: jsobj

record DocumentData =
  title :: string
  imageOptionsArray :: "ref list"
  meshOptionsArray :: "jsval list"
  opts :: ref
  previewImageDataURL :: string
  labels :: "ref list"
  encodedImageBlobs :: "string list"
  encodedDrawingBlob :: string
  meshesString :: "string option"
  sceneDataOpt :: "jsobj option"
  connectomes :: "string list option"
  customData :: "string option"

record ExportDocumentData =
  exp_encodedImageBlobs :: "string list"
  exp_encodedDrawingBlob :: "string option"
  exp_previewImageDataURL :: string
  exp_imageOptionsMap :: "string \<rightharpoonup> nat"
  exp_imageOptionsArray :: "ref list"
  exp_sceneData :: jsobj
  exp_opts :: ref
  exp_meshesString :: string
  exp_labels :: "ref list"
  exp_connectomes :: "string list"
  exp_customData :: "string option"

text \<open>
  The scene: the two observer slots and the scene data. An observer is a callback acting on
  the world \<open>'w\<close> outside the document; an empty slot is a falsy value in the field.
\<close>

record 'w Scene =
  onAzimuthElevationChange :: "(jsval \<Rightarrow> jsval \<Rightarrow> 'w \<Rightarrow> 'w) option"
  onZoom3DChange :: "(jsval \<Rightarrow> 'w \<Rightarrow> 'w) option"
  sceneData :: jsobj

record 'w NVDocument =
  data :: DocumentData
  scene :: "'w Scene"
  volumes :: "NVImage list"
  meshDataObjects :: "NVMesh list option"
  meshes :: "NVMesh list"
  drawBitmap :: "8 word list option"
  imageOptionsMap :: "string \<rightharpoonup> nat"
  meshOptionsMap :: "string \<rightharpoonup> nat"

text \<open>
  What the document takes from code outside these sources:
  the enum value \<open>NVIMAGE_TYPE.NII\<close>;
  the path name of a locator resolved by the platform's \<open>URL\<close> class against
  \<open>window.location.href\<close> (\<open>None\<close> when the constructor throws);
  the base-64 text of a volume's bytes and of a drawing on a volume's grid
  (\<open>NVUtilities.uint8tob64\<close> of \<open>toUint8Array\<close>);
  the JSON text of a connectome; the structured-clone text of the copied meshes
  (\<open>JSON.stringify(serialize(meshes))\<close>) and its inverse
  (\<open>deserialize(JSON.parse(s))\<close>, \<open>None\<close> when the text does not parse).
  The encoders and the serializers are taken to return; the copy of the allow-listed mesh
  fields that \<open>json\<close> hands to the serializer reads the meshes and writes nothing.
\<close>

record collaborators =
  NVIMAGE_TYPE_NII :: jsval
  urlPathname :: "string \<Rightarrow> string option"
  encodeVolume :: "NVImage \<Rightarrow> string"
  encodeDrawing :: "NVImage \<Rightarrow> 8 word list \<Rightarrow> string"
  connectomeJSON :: "NVMesh \<Rightarrow> string"
  serializeMeshes :: "NVMesh list \<Rightarrow> string"
  deserializeMeshes :: "string \<Rightarrow> NVMesh list option"

section \<open>The scene accessors\<close>

text \<open>
  The accessors of the scene object built by the constructor. A setter takes the scene and
  the world the observers act on, and returns both. The setters of azimuth and elevation
  test the observer slot before calling it; the setter of the volume scale calls its slot
  untested, which is a \<open>TypeError\<close> on an empty slot, thrown after the field is written.
\<close>

definition get_renderAzimuth :: "'w Scene \<Rightarrow> jsval" where
  "get_renderAzimuth sc = getProp (sceneData sc) ''azimuth''"

definition get_renderElevation :: "'w Scene \<Rightarrow> jsval" where
  "get_renderElevation sc = getProp (sceneData sc) ''elevation''"

definition get_volScaleMultiplier :: "'w Scene \<Rightarrow> jsval" where
  "get_volScaleMultiplier sc = getProp (sceneData sc) ''volScaleMultiplier''"

definition notifyAzimuthElevation :: "'w Scene \<Rightarrow> 'w \<Rightarrow> 'w" where
  "notifyAzimuthElevation sc w =
     (case onAzimuthElevationChange sc of
        None \<Rightarrow> w
      | Some f \<Rightarrow> f (getProp (sceneData sc) ''azimuth'') (getProp (sceneData sc) ''elevation'') w)"

definition set_renderAzimuth :: "jsnum \<Rightarrow> 'w Scene \<times> 'w \<Rightarrow> 'w Scene \<times> 'w" where
  "set_renderAzimuth azimuth = (\<lambda>(sc, w).
     let sc' = sc\<lparr>sceneData := (sceneData sc)(''azimuth'' \<mapsto> VNum azimuth)\<rparr>
     in (sc', notifyAzimuthElevation sc' w))"

definition set_renderElevation :: "jsnum \<Rightarrow> 'w Scene \<times> 'w \<Rightarrow> 'w Scene \<times> 'w" where
  "set_renderElevation elevation = (\<lambda>(sc, w).
     let sc' = sc\<lparr>sceneData := (sceneData sc)(''elevation'' \<mapsto> VNum elevation)\<rparr>
     in (sc', notifyAzimuthElevation sc' w))"

definition set_volScaleMultiplier ::
  "jsnum \<Rightarrow> 'w Scene \<times> 'w \<Rightarrow> unit outcome \<times> 'w Scene \<times> 'w" where
  "set_volScaleMultiplier scale = (\<lambda>(sc, w).
     let sc' = sc\<lparr>sceneData := (sceneData sc)(''volScaleMultiplier'' \<mapsto> VNum scale)\<rparr>
     in case onZoom3DChange sc' of
          None \<Rightarrow> (Throw (TypeError ''this.onZoom3DChange is not a function''), sc', w)
        | Some g \<Rightarrow> (Return (), sc', g (VNum scale) w))"

definition set_crosshairPos :: "ref \<Rightarrow> 'w Scene \<times> 'w \<Rightarrow> 'w Scene \<times> 'w" where
  "set_crosshairPos crosshairPos = (\<lambda>(sc, w).
     (sc\<lparr>sceneData := (sceneData sc)(''crosshairPos'' \<mapsto> VArr crosshairPos)\<rparr>, w))"

definition set_clipPlane :: "ref \<Rightarrow> 'w Scene \<times> 'w \<Rightarrow> 'w Scene \<times> 'w" where
  "set_clipPlane clipPlane = (\<lambda>(sc, w).
     (sc\<lparr>sceneData := (sceneData sc)(''clipPlane'' \<mapsto> VArr clipPlane)\<rparr>, w))"

definition set_clipPlaneDepthAziElev :: "ref \<Rightarrow> 'w Scene \<times> 'w \<Rightarrow> 'w Scene \<times> 'w" where
  "set_clipPlaneDepthAziElev clipPlaneDepthAziElev = (\<lambda>(sc, w).
     (sc\<lparr>sceneData := (sceneData sc)(''clipPlaneDepthAziElev'' \<mapsto> VArr clipPlaneDepthAziElev)\<rparr>, w))"

definition set_pan2Dxyzmm :: "ref \<Rightarrow> 'w Scene \<times> 'w \<Rightarrow> 'w Scene \<times> 'w" where
  "set_pan2Dxyzmm pan2Dxyzmm = (\<lambda>(sc, w).
     (sc\<lparr>sceneData := (sceneData sc)(''pan2Dxyzmm'' \<mapsto> VArr pan2Dxyzmm)\<rparr>, w))"

text \<open>
  Recording stubs: observers whose world is the list of the calls made so far.
\<close>

datatype observed = AzimuthElevationChange jsval jsval | Zoom3DChange jsval

definition recordAzimuthElevation :: "jsval \<Rightarrow> jsval \<Rightarrow> observed list \<Rightarrow> observed list" where
  "recordAzimuthElevation a e calls = calls @ [AzimuthElevationChange a e]"

definition recordZoom :: "jsval \<Rightarrow> observed list \<Rightarrow> observed list" where
  "recordZoom s calls = calls @ [Zoom3DChange s]"

section \<open>The options accessors\<close>

text \<open>
  \<open>get opts\<close> returns the reference held in \<open>data.opts\<close>. \<open>set opts\<close> stores
  \<open>{ ...opts }\<close>: a new object with the property values of the argument.
\<close>

definition get_opts :: "'w NVDocument \<Rightarrow> ref" where
  "get_opts d = opts (data d)"

definition set_opts :: "ref \<Rightarrow> 'w NVDocument \<times> heap \<Rightarrow> 'w NVDocument \<times> heap" where
  "set_opts options = (\<lambda>(d, h).
     let (r, cs) = alloc (cells (configObjs h) options) (configObjs h)
     in (d\<lparr>data := (data d)\<lparr>opts := r\<rparr>\<rparr>, h\<lparr>configObjs := cs\<rparr>))"

text \<open>
  Reading an array-valued option through the document, \<open>doc.opts.k\<close>, down to the
  elements of the array.
\<close>

definition readOptionArray :: "heap \<Rightarrow> 'w NVDocument \<Rightarrow> string \<Rightarrow> jsval list option" where
  "readOptionArray h d k =
     (case configOption h (get_opts d) k of
        VArr a \<Rightarrow> Some (cells (arrays h) a)
      | _ \<Rightarrow> None)"

section \<open>The image-options registry\<close>

definition hasImage :: "'w NVDocument \<Rightarrow> NVImage \<Rightarrow> bool" where
  "hasImage d img \<longleftrightarrow> find (\<lambda>i. img_id i = img_id img) (volumes d) \<noteq> None"

text \<open>
  Strings are lists of 8-bit code units. \<open>toLowerCase\<close> lowers the letters A to Z;
  \<open>lastSegment\<close> is \<open>split('/').pop()\<close>; \<open>dropLast3\<close> is \<open>slice(0, -3)\<close>.
\<close>

definition toLowerCase :: "string \<Rightarrow> string" where
  "toLowerCase s =
     map (\<lambda>c. if 65 \<le> (of_char c :: nat) \<and> (of_char c :: nat) \<le> 90
              then char_of ((of_char c :: nat) + 32) else c) s"

definition endsWith :: "string \<Rightarrow> string \<Rightarrow> bool" where
  "endsWith s suf \<longleftrightarrow> suffix suf s"

definition lastSegment :: "string \<Rightarrow> string" where
  "lastSegment s = rev (takeWhile (\<lambda>c. c \<noteq> CHR ''/'') (rev s))"

definition dropLast3 :: "string \<Rightarrow> string" where
  "dropLast3 s = take (length s - 3) s"

text \<open>
  The name computed from the path of the locator: the last segment, without a final
  \<open>.gz\<close>, and with \<open>.nii\<close> appended unless it already ends so.
\<close>

definition nameFromPath :: "string \<Rightarrow> string" where
  "nameFromPath path =
     (let n0 = lastSegment path;
          n1 = (if endsWith (toLowerCase n0) ''.gz'' then dropLast3 n0 else n0)
      in if \<not> endsWith (toLowerCase n1) ''.nii'' then n1 @ ''.nii'' else n1)"

text \<open>
  The guarded block that opens \<open>addImageOptions\<close>: under \<open>!this.hasImage(image)\<close>, a
  record without a name is named from its locator, or \<open>untitled.nii\<close> without one. The
  \<open>URL\<close> constructor throws a \<open>TypeError\<close> on a locator it cannot parse. The
  locator is a string by its type; a truthy value of another kind is treated as a locator
  that does not parse. The source assigns the name up to three times while it trims and
  completes it; the model assigns the final name once.
\<close>

definition nameImageOptions ::
  "collaborators \<Rightarrow> 'w NVDocument \<Rightarrow> NVImage \<Rightarrow> ref \<Rightarrow> heap \<Rightarrow> unit outcome \<times> heap" where
  "nameImageOptions env d img imageOptions h =
     (if \<not> hasImage d img then
        if \<not> truthy (imageOption h imageOptions ''name'') then
          if truthy (imageOption h imageOptions ''url'') then
            (case imageOption h imageOptions ''url'' of
               VStr u \<Rightarrow>
                 (case urlPathname env u of
                    None \<Rightarrow> (Throw (TypeError ''Invalid URL''), h)
                  | Some path \<Rightarrow>
                      (Return (), setImageOption imageOptions ''name'' (VStr (nameFromPath path)) h))
             | _ \<Rightarrow> (Throw (TypeError ''Invalid URL''), h))
          else (Return (), setImageOption imageOptions ''name'' (VStr ''untitled.nii'') h)
        else (Return (), h)
      else (Return (), h))"

text \<open>
  \<open>addImageOptions\<close>: after the guarded block, the three statements that tag the record,
  push it to the load-option sequence, and map the image's identifier to the last index.
\<close>

definition addImageOptions ::
  "collaborators \<Rightarrow> NVImage \<Rightarrow> ref \<Rightarrow> 'w NVDocument \<times> heap \<Rightarrow>
     unit outcome \<times> 'w NVDocument \<times> heap" where
  "addImageOptions env img imageOptions = (\<lambda>(d, h).
     case nameImageOptions env d img imageOptions h of
       (Throw e, h1) \<Rightarrow> (Throw e, d, h1)
     | (Return u, h1) \<Rightarrow>
         let h2 = setImageOption imageOptions ''imageType'' (NVIMAGE_TYPE_NII env) h1;
             arr = imageOptionsArray (data d) @ [imageOptions]
         in (Return (),
             d\<lparr>data := (data d)\<lparr>imageOptionsArray := arr\<rparr>,
               imageOptionsMap := (imageOptionsMap d)(img_id img \<mapsto> length arr - 1)\<rparr>,
             h2))"

text \<open>\<open>splice(index, 1)\<close> on a list that is longer than \<open>index\<close>.\<close>

definition splice1 :: "nat \<Rightarrow> 'a list \<Rightarrow> 'a list" where
  "splice1 index xs = take index xs @ drop (Suc index) xs"

definition removeImage :: "NVImage \<Rightarrow> 'w NVDocument \<Rightarrow> 'w NVDocument" where
  "removeImage img d =
     (let d1 = (case imageOptionsMap d (img_id img) of
                  None \<Rightarrow> d
                | Some index \<Rightarrow>
                    d\<lparr>data := (data d)\<lparr>imageOptionsArray :=
                         (if length (imageOptionsArray (data d)) > index
                          then splice1 index (imageOptionsArray (data d))
                          else imageOptionsArray (data d))\<rparr>,
                      imageOptionsMap := (imageOptionsMap d)(img_id img := None)\<rparr>)
      in d1\<lparr>volumes := filter (\<lambda>i. img_id i \<noteq> img_id img) (volumes d1)\<rparr>)"

text \<open>
  What \<open>getImageOptions\<close> returns: \<open>null\<close> for an identifier the map does not have,
  otherwise the element of the sequence at the mapped index, which is \<open>undefined\<close> when
  the index is not inside the sequence.
\<close>

datatype lookup = IsNull | IsUndefined | IsRecord ref

definition getImageOptions :: "'w NVDocument \<Rightarrow> NVImage \<Rightarrow> lookup" where
  "getImageOptions d img =
     (case imageOptionsMap d (img_id img) of
        None \<Rightarrow> IsNull
      | Some index \<Rightarrow>
          if index < length (imageOptionsArray (data d))
          then IsRecord (imageOptionsArray (data d) ! index)
          else IsUndefined)"

section \<open>Export: \<open>json\<close>\<close>

text \<open>
  The record literal that \<open>json\<close> writes out when a volume has no load-option record.
  The source has the literal twice, for the base volume and for the others, with the same
  twenty-one fields.
\<close>

definition defaultImageOptions :: "collaborators \<Rightarrow> jsobj" where
  "defaultImageOptions env =
     [''name'' \<mapsto> VStr [],
      ''colormap'' \<mapsto> VStr ''gray'',
      ''opacity'' \<mapsto> VNum (Finite 1),
      ''pairedImgData'' \<mapsto> VNull,
      ''cal_min'' \<mapsto> VNum NaN,
      ''cal_max'' \<mapsto> VNum NaN,
      ''trustCalMinMax'' \<mapsto> VBool True,
      ''percentileFrac'' \<mapsto> VNum (Finite (2 / 100)),
      ''ignoreZeroVoxels'' \<mapsto> VBool False,
      ''useQFormNotSForm'' \<mapsto> VBool False,
      ''colormapNegative'' \<mapsto> VStr [],
      ''colormapLabel'' \<mapsto> VNull,
      ''imageType'' \<mapsto> NVIMAGE_TYPE_NII env,
      ''frame4D'' \<mapsto> VNum (Finite 0),
      ''limitFrames4D'' \<mapsto> VNum NaN,
      ''url'' \<mapsto> VStr [],
      ''urlImageData'' \<mapsto> VStr [],
      ''alphaThreshold'' \<mapsto> VBool False,
      ''cal_minNeg'' \<mapsto> VNum NaN,
      ''cal_maxNeg'' \<mapsto> VNum NaN,
      ''colorbarVisible'' \<mapsto> VBool True]"

definition newImageOptions :: "jsobj \<Rightarrow> heap \<Rightarrow> ref \<times> heap" where
  "newImageOptions ob h =
     (let (r, s) = alloc ob (imageOptionsObjs h) in (r, h\<lparr>imageOptionsObjs := s\<rparr>))"

text \<open>\<open>x || NaN\<close> on an optional number: \<open>NaN\<close> for a missing, zero or \<open>NaN\<close> value.\<close>

definition orNaN :: "jsnum option \<Rightarrow> jsval" where
  "orNaN x =
     (case x of
        None \<Rightarrow> VNum NaN
      | Some n \<Rightarrow> if truthy (VNum n) then VNum n else VNum NaN)"

text \<open>
  The four assignments that refresh the base volume's record from the live volume, and
  the five that refresh the record of a later volume, in the order of the source.
\<close>

definition refreshBase :: "NVImage \<Rightarrow> ref \<Rightarrow> heap \<Rightarrow> heap" where
  "refreshBase v r h =
     setImageOption r ''cal_min'' (orNaN (cal_min v))
       (setImageOption r ''cal_max'' (orNaN (cal_max v))
         (setImageOption r ''opacity'' (VNum (opacity v))
           (setImageOption r ''colormap'' (VStr (colormap v)) h)))"

definition refreshOverlay :: "NVImage \<Rightarrow> ref \<Rightarrow> heap \<Rightarrow> heap" where
  "refreshOverlay v r h =
     setImageOption r ''cal_min'' (orNaN (cal_min v))
       (setImageOption r ''cal_max'' (orNaN (cal_max v))
         (setImageOption r ''opacity'' (VNum (opacity v))
           (setImageOption r ''colormapLabel'' (colormapLabel v)
             (setImageOption r ''colormap'' (VStr (colormap v)) h))))"

text \<open>
  The record a later volume is exported with: the one \<open>getImageOptions\<close> finds, tagged
  with the image type if it has none; a new default record when the lookup gives
  \<open>null\<close>. When the lookup gives \<open>undefined\<close>, the test \<open>=== null\<close> fails and
  \<open>'imageType' in imageOptions\<close> throws a \<open>TypeError\<close>.
\<close>

definition overlayOptions ::
  "collaborators \<Rightarrow> 'w NVDocument \<Rightarrow> NVImage \<Rightarrow> heap \<Rightarrow> ref outcome \<times> heap" where
  "overlayOptions env d volume h =
     (case getImageOptions d volume of
        IsNull \<Rightarrow> (case newImageOptions (defaultImageOptions env) h of (r, h1) \<Rightarrow> (Return r, h1))
      | IsUndefined \<Rightarrow>
          (Throw (TypeError ''Cannot use 'in' operator to search for 'imageType' in undefined''), h)
      | IsRecord r \<Rightarrow>
          (Return r,
           if ''imageType'' \<notin> dom (cells (imageOptionsObjs h) r)
           then setImageOption r ''imageType'' (NVIMAGE_TYPE_NII env) h
           else h))"

text \<open>
  The loop over the volumes after the first, from index \<open>i\<close> on. It carries the exported
  load-option array, the encoded payloads and the exported identifier map.
\<close>

type_synonym exported = "ref list \<times> string list \<times> (string \<rightharpoonup> nat)"

fun exportOverlays ::
  "collaborators \<Rightarrow> 'w NVDocument \<Rightarrow> NVImage list \<Rightarrow> nat \<Rightarrow> exported \<Rightarrow> heap \<Rightarrow>
     exported outcome \<times> heap" where
  "exportOverlays env d [] i acc h = (Return acc, h)"
| "exportOverlays env d (volume # rest) i (arr, blobs, idx) h =
     (case overlayOptions env d volume h of
        (Throw e, h1) \<Rightarrow> (Throw e, h1)
      | (Return r, h1) \<Rightarrow>
          exportOverlays env d rest (Suc i)
            (arr @ [r], blobs @ [encodeVolume env volume], idx(img_id volume \<mapsto> i))
            (refreshOverlay volume r h1))"

text \<open>
  The volumes part of \<open>json\<close>. The base volume takes the first element of the
  load-option sequence, or a new default record when the sequence is empty. The test
  \<open>if (imageOptions)\<close> that follows the refresh is always true there, so its
  \<open>else\<close> branch, which throws, is never taken.
\<close>

definition exportVolumes ::
  "collaborators \<Rightarrow> 'w NVDocument \<Rightarrow> heap \<Rightarrow>
     (exported \<times> string option) outcome \<times> heap" where
  "exportVolumes env d h =
     (case volumes d of
        [] \<Rightarrow> (Return (([], [], Map.empty), None), h)
      | v0 # vs \<Rightarrow>
          (case (case imageOptionsArray (data d) of
                   [] \<Rightarrow> newImageOptions (defaultImageOptions env) h
                 | r # rs \<Rightarrow> (r, h)) of
             (r0, h1) \<Rightarrow>
               (case exportOverlays env d vs 1
                       ([r0], [encodeVolume env v0], [img_id v0 \<mapsto> 0])
                       (refreshBase v0 r0 h1) of
                  (Throw e, h2) \<Rightarrow> (Throw e, h2)
                | (Return ex, h2) \<Rightarrow>
                    (Return (ex, map_option (encodeDrawing env v0) (drawBitmap d)), h2))))"

text \<open>
  The options part of \<open>json\<close>: \<open>data.opts = { ...this.opts }\<close>, then the sentinel
  substitution on the copy when the document's value is \<open>Infinity\<close>.
\<close>

definition exportOpts :: "'w NVDocument \<Rightarrow> heap \<Rightarrow> ref \<times> heap" where
  "exportOpts d h =
     (let (r, cs) = alloc (cells (configObjs h) (get_opts d)) (configObjs h);
          h1 = h\<lparr>configObjs := cs\<rparr>
      in (r, if configOption h1 (get_opts d) ''meshThicknessOn2D'' = VNum PosInf
             then setConfigOption r ''meshThicknessOn2D'' (VStr ''infinity'') h1
             else h1))"

definition json ::
  "collaborators \<Rightarrow> 'w NVDocument \<times> heap \<Rightarrow>
     ExportDocumentData outcome \<times> 'w NVDocument \<times> heap" where
  "json env = (\<lambda>(d, h).
     case exportOpts d h of
       (optsCopy, h1) \<Rightarrow>
         (case exportVolumes env d h1 of
            (Throw e, h2) \<Rightarrow> (Throw e, d, h2)
          | (Return ((arr, blobs, idx), drawing), h2) \<Rightarrow>
              (Return
                 \<lparr>exp_encodedImageBlobs = blobs,
                  exp_encodedDrawingBlob = drawing,
                  exp_previewImageDataURL = previewImageDataURL (data d),
                  exp_imageOptionsMap = idx,
                  exp_imageOptionsArray = arr,
                  exp_sceneData = sceneData (scene d),
                  exp_opts = optsCopy,
                  exp_meshesString = serializeMeshes env (filter (\<lambda>m. \<not> isConnectome m) (meshes d)),
                  exp_labels = labels (data d),
                  exp_connectomes = map (connectomeJSON env) (filter isConnectome (meshes d)),
                  exp_customData = customData (data d)\<rparr>,
               d, h2)))"

section \<open>What export may write\<close>

text \<open>
  The fields of a load-option record that \<open>json\<close> assigns, and the records of a
  document that it assigns them in: the first element of the load-option sequence, for the
  base volume, and the records that \<open>getImageOptions\<close> finds for the later volumes.
\<close>

definition displayFields :: "string set" where
  "displayFields =
     {''colormap'', ''colormapLabel'', ''opacity'', ''cal_max'', ''cal_min'', ''imageType''}"

definition lookedUp :: "'w NVDocument \<Rightarrow> NVImage list \<Rightarrow> ref set" where
  "lookedUp d vs = {r. \<exists>v\<in>set vs. getImageOptions d v = IsRecord r}"

definition refreshedRecords :: "'w NVDocument \<Rightarrow> ref set" where
  "refreshedRecords d =
     (case volumes d of
        [] \<Rightarrow> {}
      | v0 # vs \<Rightarrow> set (take 1 (imageOptionsArray (data d))) \<union> lookedUp d vs)"

text \<open>
  \<open>exportFrame touched h h'\<close>: from \<open>h\<close> to \<open>h'\<close> the arrays and the options records
  are the same, load-option records may have been allocated, and of the records of
  \<open>h\<close> only those in \<open>touched\<close> are written, in their display fields only.
\<close>

definition exportFrame :: "ref set \<Rightarrow> heap \<Rightarrow> heap \<Rightarrow> bool" where
  "exportFrame touched h h' \<longleftrightarrow>
     arrays h' = arrays h \<and> configObjs h' = configObjs h \<and>
     next_free (imageOptionsObjs h) \<le> next_free (imageOptionsObjs h') \<and>
     (\<forall>r<next_free (imageOptionsObjs h).
        (\<forall>k. k \<notin> displayFields \<longrightarrow>
           cells (imageOptionsObjs h') r k = cells (imageOptionsObjs h) r k) \<and>
        (r \<notin> touched \<longrightarrow> cells (imageOptionsObjs h') r = cells (imageOptionsObjs h) r))"

text \<open>The record of a later volume after its refresh, and of the base volume.\<close>

definition overlayRefreshed :: "NVImage \<Rightarrow> jsobj \<Rightarrow> jsobj" where
  "overlayRefreshed v ob =
     ob(''colormap'' \<mapsto> VStr (colormap v),
        ''colormapLabel'' \<mapsto> colormapLabel v,
        ''opacity'' \<mapsto> VNum (opacity v),
        ''cal_max'' \<mapsto> orNaN (cal_max v),
        ''cal_min'' \<mapsto> orNaN (cal_min v))"

definition baseRefreshed :: "NVImage \<Rightarrow> jsobj \<Rightarrow> jsobj" where
  "baseRefreshed v ob =
     ob(''colormap'' \<mapsto> VStr (colormap v),
        ''opacity'' \<mapsto> VNum (opacity v),
        ''cal_max'' \<mapsto> orNaN (cal_max v),
        ''cal_min'' \<mapsto> orNaN (cal_min v))"

section \<open>Import: the legacy field rename\<close>

text \<open>
  The body of the inner loop of \<open>deserializeMeshDataObjects\<close>: the two \<open>in\<close> tests, each
  followed by the assignment to the current name and the \<open>delete\<close> of the old one.
\<close>

definition renameLayer :: "jsobj \<Rightarrow> jsobj" where
  "renameLayer layer =
     (let l1 = (if ''colorMap'' \<in> dom layer
                then (layer(''colormap'' \<mapsto> getProp layer ''colorMap''))(''colorMap'' := None)
                else layer)
      in if ''colorMapNegative'' \<in> dom l1
         then (l1(''colormapNegative'' \<mapsto> getProp l1 ''colorMapNegative''))(''colorMapNegative'' := None)
         else l1)"

definition renameMeshLayers :: "NVMesh \<Rightarrow> NVMesh" where
  "renameMeshLayers mesh = mesh\<lparr>layers := map renameLayer (layers mesh)\<rparr>"

definition deserializeMeshDataObjects ::
  "collaborators \<Rightarrow> 'w NVDocument \<Rightarrow> unit outcome \<times> 'w NVDocument" where
  "deserializeMeshDataObjects env document =
     (case meshesString (data document) of
        None \<Rightarrow> (Return (), document)
      | Some s \<Rightarrow>
          if s = [] then (Return (), document)
          else (case deserializeMeshes env s of
                  None \<Rightarrow> (Throw SyntaxError, document)
                | Some ms \<Rightarrow>
                    (Return (), document\<lparr>meshDataObjects := Some (map renameMeshLayers ms)\<rparr>)))"

text \<open>
  The module-level constant \<open>INITIAL_SCENE_DATA\<close>. Its six array values are allocated
  once, when the module is loaded: they are the first six cells of the array store.
\<close>

definition moduleArrays :: "jsval list store" where
  "moduleArrays =
     \<lparr>cells = (\<lambda>_. [])
        (0 := [VNum (Finite 0), VNum (Finite 0), VNum (Finite 0)],
         1 := [VNum (Finite 0), VNum (Finite 0), VNum (Finite 0), VNum (Finite 0)],
         2 := [VNum (Finite 2), VNum (Finite 0), VNum (Finite 0)],
         3 := [VNum (Finite 0), VNum (Finite 0), VNum (Finite 0), VNum (Finite 0)],
         4 := [VNum (Finite 0), VNum (Finite 0), VNum (Finite 0)],
         5 := [VNum (Finite 1), VNum (Finite 1), VNum (Finite 1)]),
      next_free = 6\<rparr>"

definition INITIAL_SCENE_DATA :: jsobj where
  "INITIAL_SCENE_DATA =
     [''azimuth'' \<mapsto> VNum (Finite 110),
      ''elevation'' \<mapsto> VNum (Finite 10),
      ''crosshairPos'' \<mapsto> VArr 0,
      ''clipPlane'' \<mapsto> VArr 1,
      ''clipPlaneDepthAziElev'' \<mapsto> VArr 2,
      ''volScaleMultiplier'' \<mapsto> VNum (Finite 1),
      ''pan2Dxyzmm'' \<mapsto> VArr 3,
      ''clipThick'' \<mapsto> VNum (Finite 2),
      ''clipVolumeLow'' \<mapsto> VArr 4,
      ''clipVolumeHigh'' \<mapsto> VArr 5]"

section \<open>Import: \<open>loadFromJSON\<close>\<close>

text \<open>
  The sentinel reversal of \<open>loadFromJSON\<close>: the test
  \<open>document.data.opts.meshThicknessOn2D === 'infinity'\<close> and the assignment of
  \<open>Infinity\<close> to the options record of the container.
\<close>

definition restoreMeshThickness :: "ref \<Rightarrow> heap \<Rightarrow> heap" where
  "restoreMeshThickness r h =
     (if configOption h r ''meshThicknessOn2D'' = VStr ''infinity''
      then setConfigOption r ''meshThicknessOn2D'' (VNum PosInf) h
      else h)"

text \<open>
  \<open>new NVDocument()\<close> followed by \<open>document.data = data\<close> and the assignment to
  \<open>document.scene.sceneData\<close>: the constructor's own \<open>data\<close> and scene data are
  replaced at once, so the document built here has the given container as its data, the
  constructor's no-op observers, no volumes, no meshes, no drawing and empty registries.
  The spread \<open>{ ...INITIAL_SCENE_DATA, ...data.sceneData }\<close> is the baseline overridden
  by the container's scene data, when the container has one.
\<close>

definition newDocumentWith :: "DocumentData \<Rightarrow> 'w NVDocument" where
  "newDocumentWith d =
     \<lparr>data = d,
      scene = \<lparr>onAzimuthElevationChange = Some (\<lambda>a e w. w),
               onZoom3DChange = Some (\<lambda>s w. w),
               sceneData = INITIAL_SCENE_DATA ++
                 (case sceneDataOpt d of None \<Rightarrow> Map.empty | Some sd \<Rightarrow> sd)\<rparr>,
      volumes = [],
      meshDataObjects = None,
      meshes = [],
      drawBitmap = None,
      imageOptionsMap = Map.empty,
      meshOptionsMap = Map.empty\<rparr>"

definition loadFromJSON ::
  "collaborators \<Rightarrow> DocumentData \<Rightarrow> heap \<Rightarrow> 'w NVDocument outcome \<times> heap" where
  "loadFromJSON env d h =
     (let h1 = restoreMeshThickness (opts d) h in
      case deserializeMeshDataObjects env (newDocumentWith d) of
        (Throw e, document) \<Rightarrow> (Throw e, h1)
      | (Return u, document) \<Rightarrow> (Return document, h1))"

text \<open>
  The legacy rename in the words of the specification: between a layer as deserialized and
  the layer after import, an old color-map name gives its value to the current name and is
  gone, for the positive and for the negative color map; a layer with neither old name is
  the same layer; and no other field of a layer changes.
\<close>

definition legacyRenamed :: "jsobj \<Rightarrow> jsobj \<Rightarrow> bool" where
  "legacyRenamed l l' \<longleftrightarrow>
     (\<forall>v. l ''colorMap'' = Some v \<longrightarrow> l' ''colormap'' = Some v \<and> l' ''colorMap'' = None) \<and>
     (\<forall>v. l ''colorMapNegative'' = Some v \<longrightarrow>
          l' ''colormapNegative'' = Some v \<and> l' ''colorMapNegative'' = None) \<and>
     (l ''colorMap'' = None \<and> l ''colorMapNegative'' = None \<longrightarrow> l' = l) \<and>
     (\<forall>k. k \<notin> {''colorMap'', ''colormap'', ''colorMapNegative'', ''colormapNegative''} \<longrightarrow>
          l' k = l k)"

section \<open>The connectome\<close>

text \<open>
  Nodes and edges are objects in the connectome's arrays: the arrays hold references, and
  \<open>===\<close> between two of them compares the references. \<open>first\<close> and \<open>second\<close> of an
  edge are node indices, integers on which the addition of the source is exact. A node's
  label, which \<open>updateLabels\<close> rebuilds from the color tables, is display data and is not
  part of the model, so \<open>updateLabels\<close> has no effect here.
\<close>

record NVConnectomeNode =
  node_name :: string
  node_x :: jsnum
  node_y :: jsnum
  node_z :: jsnum
  node_colorValue :: jsnum
  node_sizeValue :: jsnum

record NVConnectomeEdge =
  edge_first :: int
  edge_second :: int
  edge_colorValue :: jsnum

datatype nodeEvent = NodeAdded ref | NodeDeleted ref | NodeChanged ref

record NVConnectome =
  nodes :: "ref list option"
  edges :: "ref list option"
  nodeObjs :: "NVConnectomeNode store"
  edgeObjs :: "NVConnectomeEdge store"
  nodeMinColor :: "jsnum option"
  nodeMaxColor :: "jsnum option"
  edgeMin :: "jsnum option"
  edgeMax :: "jsnum option"
  nodesChanged :: "nodeEvent list"

text \<open>\<open>===\<close> on two numbers: \<open>NaN\<close> equals nothing.\<close>

definition strictEquals :: "jsnum \<Rightarrow> jsnum \<Rightarrow> bool" where
  "strictEquals a b \<longleftrightarrow> a = b \<and> a \<noteq> NaN"

text \<open>
  Modelled from the spec: \<open>NVUtilities.arraysAreEqual\<close> is not among the sources. The
  node to update is the one whose coordinates equal the point: two arrays are equal when
  they have the same length and the same elements, compared by \<open>===\<close>.
\<close>

definition arraysAreEqual :: "jsnum list \<Rightarrow> jsnum list \<Rightarrow> bool" where
  "arraysAreEqual a b \<longleftrightarrow> length a = length b \<and> list_all2 strictEquals a b"

text \<open>\<open>findIndex\<close>: the first index whose element satisfies the test, or \<open>-1\<close>.\<close>

fun findIndex :: "('a \<Rightarrow> bool) \<Rightarrow> 'a list \<Rightarrow> int" where
  "findIndex P [] = -1"
| "findIndex P (x # xs) =
     (if P x then 0 else (let i = findIndex P xs in if i < 0 then -1 else i + 1))"

text \<open>
  \<open>updateConnectome\<close> rebuilds the geometry of the connectome and uploads it. It writes
  no node and no edge. The lookups of the color tables that open it are taken to return.
  It throws when a color range is undefined and, reading
  \<open>nodes.length\<close>, when there is no node list. What follows (the spheres and cylinders, the
  color tables, the buffers) is outside the model: \<open>geometry\<close> stands for it, and gives
  the message of the failure when that part throws, as it does when a drawn edge names a
  node that is not in the list.
\<close>

definition updateConnectome ::
  "(NVConnectome \<Rightarrow> string option) \<Rightarrow> NVConnectome \<Rightarrow> error option" where
  "updateConnectome geometry c =
     (if nodeMinColor c = None \<or> nodeMaxColor c = None then Some NodeColorRangeUndefined
      else if edgeMin c = None \<or> edgeMax c = None then Some EdgeRangeUndefined
      else if nodes c = None
        then Some (TypeError ''Cannot read properties of undefined (reading 'length')'')
      else map_option GeometryFailure (geometry c))"

text \<open>
  \<open>nodes[index] = updatedNode\<close> replaces an element inside the list and appends at its
  end; at a negative index it writes a property and no element. Beyond the end it would
  leave holes, on which \<open>updateLabels\<close> throws a \<open>TypeError\<close>; the model has no holes
  and leaves the list as it was in that case.
\<close>

definition updateConnectomeNodeByIndex ::
  "(NVConnectome \<Rightarrow> string option) \<Rightarrow> int \<Rightarrow> ref \<Rightarrow> NVConnectome \<Rightarrow>
     unit outcome \<times> NVConnectome" where
  "updateConnectomeNodeByIndex geometry index updatedNode c =
     (case nodes c of
        None \<Rightarrow> (Throw (TypeError ''Cannot set properties of undefined''), c)
      | Some ns \<Rightarrow>
          if int (length ns) < index
          then (Throw (TypeError ''Cannot read properties of undefined (reading 'colorValue')''), c)
          else
            (let c' = c\<lparr>nodes := Some (if index < 0 then ns
                                          else if index = int (length ns) then ns @ [updatedNode]
                                          else ns[nat index := updatedNode])\<rparr>
             in case updateConnectome geometry c' of
                  Some e \<Rightarrow> (Throw e, c')
                | None \<Rightarrow>
                    (Return (), c'\<lparr>nodesChanged := nodesChanged c' @ [NodeChanged updatedNode]\<rparr>)))"

definition nodePoint :: "NVConnectomeNode \<Rightarrow> jsnum list" where
  "nodePoint n = [node_x n, node_y n, node_z n]"

definition updateConnectomeNodeByPoint ::
  "(NVConnectome \<Rightarrow> string option) \<Rightarrow> jsnum list \<Rightarrow> ref \<Rightarrow> NVConnectome \<Rightarrow>
     unit outcome \<times> NVConnectome" where
  "updateConnectomeNodeByPoint geometry point updatedNode c =
     (case nodes c of
        None \<Rightarrow> (Throw NodesNotDefined, c)
      | Some ns \<Rightarrow>
          (case find (\<lambda>r. arraysAreEqual (nodePoint (cells (nodeObjs c) r)) point) ns of
             None \<Rightarrow> (Throw (NodeNotFound point), c)
           | Some node \<Rightarrow>
               updateConnectomeNodeByIndex geometry (findIndex (\<lambda>n. n = node) ns) updatedNode c))"

text \<open>The two tests passed to \<open>edges.find\<close>, by \<open>addConnectomeEdge\<close> and by
  \<open>deleteConnectomeEdge\<close>.\<close>

definition addTest :: "int \<Rightarrow> int \<Rightarrow> NVConnectomeEdge \<Rightarrow> bool" where
  "addTest first second f \<longleftrightarrow>
     (edge_first f = first \<or> edge_second f = first) \<and>
     edge_first f + edge_second f = first + second"

definition deleteTest :: "int \<Rightarrow> int \<Rightarrow> NVConnectomeEdge \<Rightarrow> bool" where
  "deleteTest first second f \<longleftrightarrow>
     (edge_first f = first \<or> edge_first f = second) \<and>
     edge_first f + edge_second f = first + second"

definition addConnectomeEdge ::
  "(NVConnectome \<Rightarrow> string option) \<Rightarrow> int \<Rightarrow> int \<Rightarrow> jsnum \<Rightarrow> NVConnectome \<Rightarrow>
     ref outcome \<times> NVConnectome" where
  "addConnectomeEdge geometry first second colorValue c =
     (case edges c of
        None \<Rightarrow> (Throw (TypeError ''Cannot read properties of undefined (reading 'find')''), c)
      | Some es \<Rightarrow>
          (case find (\<lambda>r. addTest first second (cells (edgeObjs c) r)) es of
             Some edge \<Rightarrow> (Return edge, c)
           | None \<Rightarrow>
               (case alloc \<lparr>edge_first = first, edge_second = second,
                              edge_colorValue = colorValue\<rparr> (edgeObjs c) of
                  (edge, s) \<Rightarrow>
                    (let c' = c\<lparr>edges := Some (es @ [edge]), edgeObjs := s\<rparr>
                     in case updateConnectome geometry c' of
                          Some e \<Rightarrow> (Throw e, c')
                        | None \<Rightarrow> (Return edge, c')))))"

definition deleteConnectomeEdge ::
  "(NVConnectome \<Rightarrow> string option) \<Rightarrow> int \<Rightarrow> int \<Rightarrow> NVConnectome \<Rightarrow>
     ref outcome \<times> NVConnectome" where
  "deleteConnectomeEdge geometry first second c =
     (case edges c of
        None \<Rightarrow> (Throw (TypeError ''Cannot read properties of undefined (reading 'find')''), c)
      | Some es \<Rightarrow>
          (case find (\<lambda>r. deleteTest first second (cells (edgeObjs c) r)) es of
             None \<Rightarrow> (Throw (EdgeNotFound first second), c)
           | Some edge \<Rightarrow>
               (let c' = c\<lparr>edges := Some (filter (\<lambda>e. e \<noteq> edge) es)\<rparr>
                in case updateConnectome geometry c' of
                     Some e \<Rightarrow> (Throw e, c')
                   | None \<Rightarrow> (Return edge, c'))))"

text \<open>
  An edge joins \<open>first\<close> and \<open>second\<close> when these are its two ends, in either order.
\<close>

definition joins :: "NVConnectomeEdge \<Rightarrow> int \<Rightarrow> int \<Rightarrow> bool" where
  "joins f first second \<longleftrightarrow>
     (edge_first f = first \<and> edge_second f = second) \<or>
     (edge_first f = second \<and> edge_second f = first)"

section \<open>Example states\<close>

text \<open>Concrete collaborators, heaps and documents on which the theorems below are run.\<close>

definition exampleLegacyMesh :: NVMesh where
  "exampleLegacyMesh =
     \<lparr>isConnectome = False,
      layers = [ [''colorMap'' \<mapsto> VStr ''warm'', ''opacity'' \<mapsto> VNum (Finite 1)] ],
      meshFields = [''name'' \<mapsto> VStr ''lh.pial'']\<rparr>"

definition exampleEnv :: collaborators where
  "exampleEnv =
     \<lparr>NVIMAGE_TYPE_NII = VNum (Finite 1),
      urlPathname = (\<lambda>u. Some u),
      encodeVolume = img_id,
      encodeDrawing = (\<lambda>v b. img_id v),
      connectomeJSON = (\<lambda>m. ''{}''),
      serializeMeshes = (\<lambda>ms. ''[]''),
      deserializeMeshes = (\<lambda>s. Some [exampleLegacyMesh])\<rparr>"

definition emptyHeap :: heap where
  "emptyHeap =
     \<lparr>imageOptionsObjs = \<lparr>cells = (\<lambda>_. Map.empty), next_free = 0\<rparr>,
      configObjs = \<lparr>cells = (\<lambda>_. Map.empty), next_free = 0\<rparr>,
      arrays = moduleArrays\<rparr>"

definition exampleData :: DocumentData where
  "exampleData =
     \<lparr>title = ''Untitled document'',
      imageOptionsArray = [],
      meshOptionsArray = [],
      opts = 0,
      previewImageDataURL = [],
      labels = [],
      encodedImageBlobs = [],
      encodedDrawingBlob = [],
      meshesString = Some ''meshes'',
      sceneDataOpt = None,
      connectomes = None,
      customData = None\<rparr>"

definition noGeometryFailure :: "NVConnectome \<Rightarrow> string option" where
  "noGeometryFailure c = None"

definition exampleConnectome :: NVConnectome where
  "exampleConnectome =
     \<lparr>nodes = Some [0, 1, 2],
      edges = Some [0, 1],
      nodeObjs = \<lparr>cells = (\<lambda>r. \<lparr>node_name = ''n'', node_x = Finite (of_nat r), node_y = Finite 0,
                                   node_z = Finite 0, node_colorValue = Finite 1,
                                   node_sizeValue = Finite 1\<rparr>),
                  next_free = 4\<rparr>,
      edgeObjs = \<lparr>cells = (\<lambda>r. \<lparr>edge_first = int r, edge_second = int r + 1,
                                   edge_colorValue = Finite 3\<rparr>),
                  next_free = 2\<rparr>,
      nodeMinColor = Some (Finite 0),
      nodeMaxColor = Some (Finite 4),
      edgeMin = Some (Finite 2),
      edgeMax = Some (Finite 6),
      nodesChanged = []\<rparr>"

definition exampleUnrangedConnectome :: NVConnectome where
  "exampleUnrangedConnectome = exampleConnectome\<lparr>nodeMinColor := None\<rparr>"

definition exampleRecordingScene :: "observed list Scene" where
  "exampleRecordingScene =
     \<lparr>onAzimuthElevationChange = Some recordAzimuthElevation,
      onZoom3DChange = Some recordZoom,
      sceneData = INITIAL_SCENE_DATA\<rparr>"

definition exampleOptionsHeap :: heap where
  "exampleOptionsHeap =
     emptyHeap\<lparr>configObjs :=
                 \<lparr>cells = (\<lambda>_. Map.empty)
                    (0 := [''backColor'' \<mapsto> VArr 6, ''textHeight'' \<mapsto> VNum (Finite (6 / 100)),
                           ''meshThicknessOn2D'' \<mapsto> VNum PosInf]),
                  next_free = 1\<rparr>,
               arrays :=
                 \<lparr>cells = (cells moduleArrays)
                    (6 := [VNum (Finite 0), VNum (Finite 0), VNum (Finite 0), VNum (Finite 1)]),
                  next_free = 7\<rparr>\<rparr>"

definition exampleDocument :: "unit NVDocument" where
  "exampleDocument = newDocumentWith exampleData"

definition exampleVolume :: NVImage where
  "exampleVolume =
     \<lparr>img_id = ''a'', colormap = ''hot'', colormapLabel = VNull, opacity = Finite (1 / 2),
      cal_min = Some (Finite 0), cal_max = Some (Finite 80)\<rparr>"

definition exampleOverlay :: NVImage where
  "exampleOverlay =
     \<lparr>img_id = ''b'', colormap = ''winter'', colormapLabel = VNull, opacity = Finite 1,
      cal_min = Some (Finite 2), cal_max = Some (Finite 5)\<rparr>"

definition exampleThird :: NVImage where
  "exampleThird =
     \<lparr>img_id = ''c'', colormap = ''red'', colormapLabel = VNull, opacity = Finite 1,
      cal_min = None, cal_max = Some (Finite 9)\<rparr>"

text \<open>
  A heap with three load-option records, and a document in which the three volumes are
  live and registered in this order.
\<close>

definition exampleRecordsHeap :: heap where
  "exampleRecordsHeap =
     exampleOptionsHeap\<lparr>imageOptionsObjs :=
       \<lparr>cells = (\<lambda>r. [''name'' \<mapsto> VStr ''volume.nii'', ''colormap'' \<mapsto> VStr ''gray'',
                        ''opacity'' \<mapsto> VNum (Finite 1), ''frame4D'' \<mapsto> VNum (Finite (of_nat r))]),
        next_free = 3\<rparr>\<rparr>"

definition exampleRegistered :: "unit NVDocument" where
  "exampleRegistered =
     exampleDocument\<lparr>data := exampleData\<lparr>imageOptionsArray := [0, 1, 2]\<rparr>,
                      volumes := [exampleVolume, exampleOverlay, exampleThird],
                      imageOptionsMap := [''a'' \<mapsto> 0, ''b'' \<mapsto> 1, ''c'' \<mapsto> 2]\<rparr>"


definition exampleUnregistered :: NVImage where
  "exampleUnregistered =
     \<lparr>img_id = ''u'', colormap = ''jet'', colormapLabel = VNull, opacity = Finite (3 / 4),
      cal_min = Some (Finite 0), cal_max = Some (Finite 100)\<rparr>"

text \<open>
  The registered document with a fourth live volume that was never registered, and the
  document left by removing the first image, with the same unregistered volume added.
\<close>

definition exampleWithUnregistered :: "unit NVDocument" where
  "exampleWithUnregistered =
     exampleRegistered\<lparr>volumes := [exampleVolume, exampleOverlay, exampleThird, exampleUnregistered]\<rparr>"

definition exampleDesynced :: "unit NVDocument" where
  "exampleDesynced =
     (removeImage exampleVolume exampleRegistered)
       \<lparr>volumes := [exampleOverlay, exampleThird, exampleUnregistered]\<rparr>"

text \<open>
  The undefined-operand message of the \<open>in\<close> operator, as thrown by \<open>json\<close>.
\<close>

definition inUndefined :: error where
  "inUndefined = TypeError ''Cannot use 'in' operator to search for 'imageType' in undefined''"

section \<open>Properties\<close>

subsection \<open>The legacy rename\<close>

lemma renameLayer_legacyRenamed: "legacyRenamed l (renameLayer l)"
  unfolding legacyRenamed_def renameLayer_def getProp_def Let_def
  by (auto simp: domIff)

text \<open>
  C7. Whenever the container's mesh text is present and deserializes, import succeeds and
  the meshes it stores are the deserialized meshes, one for one and with the same layers
  in the same order, where every layer of every mesh has gone through the rename: a layer
  with \<open>colorMap\<close> (\<open>colorMapNegative\<close>) has its value under \<open>colormap\<close>
  (\<open>colormapNegative\<close>) and no longer has the old key, and a layer with neither old key
  is unchanged.
\<close>

theorem import_renames_legacy_colormap_fields:
  assumes "meshesString d = Some s" and "s \<noteq> []" and "deserializeMeshes env s = Some ms"
  shows "\<exists>document h'. loadFromJSON env d h = (Return document, h') \<and>
           (\<exists>ms'. meshDataObjects document = Some ms' \<and> length ms' = length ms \<and>
              (\<forall>i<length ms.
                 isConnectome (ms' ! i) = isConnectome (ms ! i) \<and>
                 meshFields (ms' ! i) = meshFields (ms ! i) \<and>
                 length (layers (ms' ! i)) = length (layers (ms ! i)) \<and>
                 (\<forall>j<length (layers (ms ! i)).
                    legacyRenamed (layers (ms ! i) ! j) (layers (ms' ! i) ! j))))"
  using assms
  by (simp add: loadFromJSON_def deserializeMeshDataObjects_def newDocumentWith_def
      renameMeshLayers_def renameLayer_legacyRenamed)

theorem import_renames_legacy_colormap_fields_witness:
  "meshesString exampleData = Some ''meshes'' \<and> ''meshes'' \<noteq> [] \<and>
   deserializeMeshes exampleEnv ''meshes'' = Some [exampleLegacyMesh] \<and>
   (\<exists>(document :: unit NVDocument) h' ms'.
      loadFromJSON exampleEnv exampleData emptyHeap = (Return document, h') \<and>
      meshDataObjects document = Some ms' \<and>
      (layers (ms' ! 0) ! 0) ''colormap'' = Some (VStr ''warm'') \<and>
      (layers (ms' ! 0) ! 0) ''colorMap'' = None)"
proof -
  have a: "meshesString exampleData = Some ''meshes''"
    by (simp add: exampleData_def)
  have b: "''meshes'' \<noteq> []"
    by simp
  have c: "deserializeMeshes exampleEnv ''meshes'' = Some [exampleLegacyMesh]"
    by (simp add: exampleEnv_def)
  have l: "(layers exampleLegacyMesh ! 0) ''colorMap'' = Some (VStr ''warm'')"
    by (simp add: exampleLegacyMesh_def)
  from import_renames_legacy_colormap_fields [OF a b c, of emptyHeap]
  obtain document :: "unit NVDocument" and h' ms' where
    r: "loadFromJSON exampleEnv exampleData emptyHeap = (Return document, h')"
    and m: "meshDataObjects document = Some ms'"
    and q: "legacyRenamed (layers exampleLegacyMesh ! 0) (layers (ms' ! 0) ! 0)"
    by (auto simp: exampleLegacyMesh_def)
  from q l have "(layers (ms' ! 0) ! 0) ''colormap'' = Some (VStr ''warm'') \<and>
      (layers (ms' ! 0) ! 0) ''colorMap'' = None"
    unfolding legacyRenamed_def by blast
  with a b c r m show ?thesis by blast
qed

subsection \<open>Connectome edges and nodes\<close>

lemma deleteTest_joins: "deleteTest first second f \<longleftrightarrow> joins f first second"
  unfolding deleteTest_def joins_def by auto

lemma addTest_joins: "addTest first second f \<longleftrightarrow> joins f first second"
  unfolding addTest_def joins_def by auto

lemma updateConnectome_not_lookup:
  "updateConnectome g c \<noteq> Some (EdgeNotFound a b)"
  unfolding updateConnectome_def by (auto split: if_splits)

lemma find_first_index:
  "i < length xs \<Longrightarrow> P (xs ! i) \<Longrightarrow> \<forall>j<i. \<not> P (xs ! j) \<Longrightarrow> find P xs = Some (xs ! i)"
  by (auto simp: find_Some_iff)

lemma find_Some_member: "find P xs = Some x \<Longrightarrow> x \<in> set xs \<and> P x"
  by (auto simp: find_Some_iff)

lemma findIndex_first:
  "i < length xs \<Longrightarrow> P (xs ! i) \<Longrightarrow> \<forall>j<i. \<not> P (xs ! j) \<Longrightarrow> findIndex P xs = int i"
proof (induction xs arbitrary: i)
  case Nil
  then show ?case by simp
next
  case (Cons x xs)
  show ?case
  proof (cases i)
    case 0
    with Cons.prems show ?thesis by simp
  next
    case (Suc k)
    with Cons.prems have "\<not> P x" by auto
    moreover from Suc Cons.prems have "findIndex P xs = int k"
      by (intro Cons.IH) auto
    ultimately show ?thesis using Suc by (simp add: Let_def)
  qed
qed

lemma deleteConnectomeEdge_missing:
  assumes "edges c = Some es"
  shows "deleteConnectomeEdge g first second c = (Throw (EdgeNotFound first second), c)
           \<longleftrightarrow> \<not> (\<exists>r\<in>set es. joins (cells (edgeObjs c) r) first second)"
proof (cases "find (\<lambda>r. deleteTest first second (cells (edgeObjs c) r)) es")
  case None
  then have "\<not> (\<exists>r\<in>set es. joins (cells (edgeObjs c) r) first second)"
    by (simp add: find_None_iff deleteTest_joins)
  with assms None show ?thesis
    by (simp add: deleteConnectomeEdge_def)
next
  case (Some edge)
  then have "edge \<in> set es \<and> joins (cells (edgeObjs c) edge) first second"
    using find_Some_member [OF Some] by (simp add: deleteTest_joins)
  moreover have "deleteConnectomeEdge g first second c \<noteq> (Throw (EdgeNotFound first second), c)"
    using assms Some
    by (auto simp: deleteConnectomeEdge_def Let_def updateConnectome_not_lookup split: option.splits)
  ultimately show ?thesis by blast
qed

lemma deleteConnectomeEdge_found:
  assumes "edges c = Some es" and "i < length es"
    and "joins (cells (edgeObjs c) (es ! i)) first second"
    and "\<forall>j<i. \<not> joins (cells (edgeObjs c) (es ! j)) first second"
  shows "deleteConnectomeEdge g first second c =
           ((case updateConnectome g (c\<lparr>edges := Some (filter (\<lambda>e. e \<noteq> es ! i) es)\<rparr>) of
               None \<Rightarrow> Return (es ! i) | Some e \<Rightarrow> Throw e),
            c\<lparr>edges := Some (filter (\<lambda>e. e \<noteq> es ! i) es)\<rparr>)"
proof -
  have "find (\<lambda>r. deleteTest first second (cells (edgeObjs c) r)) es = Some (es ! i)"
    using assms(2-4) by (intro find_first_index) (simp_all add: deleteTest_joins)
  with assms(1) show ?thesis
    by (simp add: deleteConnectomeEdge_def Let_def split: option.splits)
qed

lemma updateConnectomeNodeByPoint_missing:
  assumes "nodes c = Some ns"
    and "\<not> (\<exists>r\<in>set ns. arraysAreEqual (nodePoint (cells (nodeObjs c) r)) point)"
  shows "updateConnectomeNodeByPoint g point u c = (Throw (NodeNotFound point), c)"
proof -
  have "find (\<lambda>r. arraysAreEqual (nodePoint (cells (nodeObjs c) r)) point) ns = None"
    using assms(2) by (simp add: find_None_iff)
  with assms(1) show ?thesis
    by (simp add: updateConnectomeNodeByPoint_def)
qed

lemma updateConnectomeNodeByPoint_found:
  assumes "nodes c = Some ns" and "i < length ns"
    and "arraysAreEqual (nodePoint (cells (nodeObjs c) (ns ! i))) point"
    and "\<forall>j<i. \<not> arraysAreEqual (nodePoint (cells (nodeObjs c) (ns ! j))) point"
  shows "updateConnectomeNodeByPoint g point u c =
           (case updateConnectome g (c\<lparr>nodes := Some (ns[i := u])\<rparr>) of
              None \<Rightarrow> (Return (), c\<lparr>nodes := Some (ns[i := u]),
                                     nodesChanged := nodesChanged c @ [NodeChanged u]\<rparr>)
            | Some e \<Rightarrow> (Throw e, c\<lparr>nodes := Some (ns[i := u])\<rparr>))"
proof -
  have f: "find (\<lambda>r. arraysAreEqual (nodePoint (cells (nodeObjs c) r)) point) ns = Some (ns ! i)"
    using assms(2-4) by (intro find_first_index) simp_all
  have "\<forall>j<i. ns ! j \<noteq> ns ! i"
    using assms(3,4) by metis
  with assms(2) have "findIndex (\<lambda>n. n = ns ! i) ns = int i"
    by (intro findIndex_first) simp_all
  with assms(1,2) f show ?thesis
    by (simp add: updateConnectomeNodeByPoint_def updateConnectomeNodeByIndex_def Let_def
        split: option.splits)
qed

text \<open>
  C9 (as amended). On a connectome with an edge list and a node list,
  \<open>deleteConnectomeEdge\<close> throws the edge-not-found error, with the connectome as it
  was, exactly when no edge of the list joins \<open>first\<close> and \<open>second\<close>. Otherwise it
  removes the first such edge object from the list and rebuilds the geometry: it returns
  the edge when \<open>updateConnectome\<close> returns, and throws the error of
  \<open>updateConnectome\<close>, the edge already removed, when that throws.
  \<open>updateConnectomeNodeByPoint\<close> throws the node-not-found error, with the connectome as
  it was, when no node of the list has the coordinates of the point. Otherwise it puts
  the new node in the place of the first such node and rebuilds the geometry in the same
  way.
\<close>

theorem connectome_lookup_failures_are_thrown:
  assumes "edges c = Some es" and "nodes c = Some ns"
  shows "(deleteConnectomeEdge g first second c = (Throw (EdgeNotFound first second), c)
            \<longleftrightarrow> \<not> (\<exists>r\<in>set es. joins (cells (edgeObjs c) r) first second)) \<and>
         (\<forall>i<length es.
            joins (cells (edgeObjs c) (es ! i)) first second \<and>
            (\<forall>j<i. \<not> joins (cells (edgeObjs c) (es ! j)) first second) \<longrightarrow>
            deleteConnectomeEdge g first second c =
              ((case updateConnectome g (c\<lparr>edges := Some (filter (\<lambda>e. e \<noteq> es ! i) es)\<rparr>) of
                  None \<Rightarrow> Return (es ! i) | Some e \<Rightarrow> Throw e),
               c\<lparr>edges := Some (filter (\<lambda>e. e \<noteq> es ! i) es)\<rparr>)) \<and>
         (\<not> (\<exists>r\<in>set ns. arraysAreEqual (nodePoint (cells (nodeObjs c) r)) point) \<longrightarrow>
            updateConnectomeNodeByPoint g point u c = (Throw (NodeNotFound point), c)) \<and>
         (\<forall>i<length ns.
            arraysAreEqual (nodePoint (cells (nodeObjs c) (ns ! i))) point \<and>
            (\<forall>j<i. \<not> arraysAreEqual (nodePoint (cells (nodeObjs c) (ns ! j))) point) \<longrightarrow>
            updateConnectomeNodeByPoint g point u c =
              (case updateConnectome g (c\<lparr>nodes := Some (ns[i := u])\<rparr>) of
                 None \<Rightarrow> (Return (), c\<lparr>nodes := Some (ns[i := u]),
                                        nodesChanged := nodesChanged c @ [NodeChanged u]\<rparr>)
               | Some e \<Rightarrow> (Throw e, c\<lparr>nodes := Some (ns[i := u])\<rparr>)))"
  using deleteConnectomeEdge_missing [OF assms(1)] deleteConnectomeEdge_found [OF assms(1)]
    updateConnectomeNodeByPoint_missing [OF assms(2)] updateConnectomeNodeByPoint_found [OF assms(2)]
  by blast

text \<open>
  C9 as stated fails: with an undefined node color range, deleting an edge that is in the
  list throws, after the edge has been removed.
\<close>

theorem deleteConnectomeEdge_counterexample:
  "edges exampleUnrangedConnectome = Some [0, 1] \<and>
   joins (cells (edgeObjs exampleUnrangedConnectome) 0) 0 1 \<and>
   fst (deleteConnectomeEdge noGeometryFailure 0 1 exampleUnrangedConnectome)
     = Throw NodeColorRangeUndefined \<and>
   edges (snd (deleteConnectomeEdge noGeometryFailure 0 1 exampleUnrangedConnectome)) = Some [1]"
  by (simp add: exampleUnrangedConnectome_def exampleConnectome_def deleteConnectomeEdge_def
      deleteTest_def joins_def updateConnectome_def Let_def)

theorem connectome_lookup_failures_are_thrown_witness:
  "edges exampleConnectome = Some [0, 1] \<and> nodes exampleConnectome = Some [0, 1, 2] \<and>
   deleteConnectomeEdge noGeometryFailure 5 7 exampleConnectome
     = (Throw (EdgeNotFound 5 7), exampleConnectome) \<and>
   deleteConnectomeEdge noGeometryFailure 1 0 exampleConnectome
     = (Return 0, exampleConnectome\<lparr>edges := Some [1]\<rparr>) \<and>
   updateConnectomeNodeByPoint noGeometryFailure [Finite 9, Finite 0, Finite 0] 3 exampleConnectome
     = (Throw (NodeNotFound [Finite 9, Finite 0, Finite 0]), exampleConnectome) \<and>
   updateConnectomeNodeByPoint noGeometryFailure [Finite 1, Finite 0, Finite 0] 3 exampleConnectome
     = (Return (), exampleConnectome\<lparr>nodes := Some [0, 3, 2], nodesChanged := [NodeChanged 3]\<rparr>)"
proof -
  have e: "edges exampleConnectome = Some [0, 1]" and n: "nodes exampleConnectome = Some [0, 1, 2]"
    by (simp_all add: exampleConnectome_def)
  have j: "\<not> (\<exists>r\<in>set [0, 1]. joins (cells (edgeObjs exampleConnectome) r) 5 7)"
    by (simp add: exampleConnectome_def joins_def)
  have k: "joins (cells (edgeObjs exampleConnectome) ([0, 1] ! 0)) 1 0"
    by (simp add: exampleConnectome_def joins_def)
  have p: "\<not> (\<exists>r\<in>set [0, 1, 2]. arraysAreEqual (nodePoint (cells (nodeObjs exampleConnectome) r))
              [Finite 9, Finite 0, Finite 0])"
    by (simp add: exampleConnectome_def arraysAreEqual_def nodePoint_def strictEquals_def)
  have q: "arraysAreEqual (nodePoint (cells (nodeObjs exampleConnectome) ([0, 1, 2] ! 1)))
              [Finite 1, Finite 0, Finite 0] \<and>
           (\<forall>j<1. \<not> arraysAreEqual (nodePoint (cells (nodeObjs exampleConnectome) ([0, 1, 2] ! j)))
              [Finite 1, Finite 0, Finite 0])"
    by (simp add: exampleConnectome_def arraysAreEqual_def nodePoint_def strictEquals_def)
  have u1: "updateConnectome noGeometryFailure (exampleConnectome\<lparr>edges := Some [1]\<rparr>) = None"
    and u2: "updateConnectome noGeometryFailure (exampleConnectome\<lparr>nodes := Some [0, 3, 2]\<rparr>) = None"
    by (simp_all add: updateConnectome_def exampleConnectome_def noGeometryFailure_def)
  note t1 = connectome_lookup_failures_are_thrown [OF e n, of noGeometryFailure 5 7
      "[Finite 9, Finite 0, Finite 0]" 3]
  note t2 = connectome_lookup_failures_are_thrown [OF e n, of noGeometryFailure 1 0
      "[Finite 1, Finite 0, Finite 0]" 3]
  from t1 j have a: "deleteConnectomeEdge noGeometryFailure 5 7 exampleConnectome
     = (Throw (EdgeNotFound 5 7), exampleConnectome)"
    by blast
  from t1 p have c: "updateConnectomeNodeByPoint noGeometryFailure [Finite 9, Finite 0, Finite 0] 3
      exampleConnectome = (Throw (NodeNotFound [Finite 9, Finite 0, Finite 0]), exampleConnectome)"
    by blast
  have b: "deleteConnectomeEdge noGeometryFailure 1 0 exampleConnectome
     = (Return 0, exampleConnectome\<lparr>edges := Some [1]\<rparr>)"
    using t2 [THEN conjunct2, THEN conjunct1, rule_format, of 0] k u1 by simp
  have d: "updateConnectomeNodeByPoint noGeometryFailure [Finite 1, Finite 0, Finite 0] 3
      exampleConnectome
     = (Return (), exampleConnectome\<lparr>nodes := Some [0, 3, 2], nodesChanged := [NodeChanged 3]\<rparr>)"
    using t2 [THEN conjunct2, THEN conjunct2, THEN conjunct2, rule_format, of 1] q u2
    by (simp add: exampleConnectome_def)
  from e n a b c d show ?thesis by simp
qed

lemma addConnectomeEdge_existing:
  assumes "edges c = Some es" and "i < length es"
    and "joins (cells (edgeObjs c) (es ! i)) first second"
    and "\<forall>j<i. \<not> joins (cells (edgeObjs c) (es ! j)) first second"
  shows "addConnectomeEdge g first second colorValue c = (Return (es ! i), c)"
proof -
  have "find (\<lambda>r. addTest first second (cells (edgeObjs c) r)) es = Some (es ! i)"
    using assms(2-4) by (intro find_first_index) (simp_all add: addTest_joins)
  with assms(1) show ?thesis
    by (simp add: addConnectomeEdge_def)
qed

lemma addConnectomeEdge_new:
  assumes "edges c = Some es"
    and "\<not> (\<exists>r\<in>set es. joins (cells (edgeObjs c) r) first second)"
  shows "addConnectomeEdge g first second colorValue c =
           ((case updateConnectome g
                    (c\<lparr>edges := Some (es @ [next_free (edgeObjs c)]),
                       edgeObjs := \<lparr>cells = (cells (edgeObjs c))(next_free (edgeObjs c) :=
                                      \<lparr>edge_first = first, edge_second = second,
                                       edge_colorValue = colorValue\<rparr>),
                                    next_free = Suc (next_free (edgeObjs c))\<rparr>\<rparr>) of
               None \<Rightarrow> Return (next_free (edgeObjs c)) | Some e \<Rightarrow> Throw e),
            c\<lparr>edges := Some (es @ [next_free (edgeObjs c)]),
              edgeObjs := \<lparr>cells = (cells (edgeObjs c))(next_free (edgeObjs c) :=
                             \<lparr>edge_first = first, edge_second = second,
                              edge_colorValue = colorValue\<rparr>),
                           next_free = Suc (next_free (edgeObjs c))\<rparr>\<rparr>)"
proof -
  have "find (\<lambda>r. addTest first second (cells (edgeObjs c) r)) es = None"
    using assms(2) by (simp add: find_None_iff addTest_joins)
  with assms(1) show ?thesis
    by (simp add: addConnectomeEdge_def alloc_def Let_def split: option.splits)
qed

text \<open>
  C10 (as amended). On a connectome with an edge list, when an edge of the list joins
  \<open>first\<close> and \<open>second\<close>, in either order, \<open>addConnectomeEdge\<close> returns the first
  such edge and changes nothing: no edge is appended and no color value is written. When
  no edge joins them, a new edge object with the three given values is appended to the
  list and the geometry is rebuilt: the new edge is returned when \<open>updateConnectome\<close>
  returns, and the error of \<open>updateConnectome\<close> is thrown, the edge already appended,
  when that throws.
\<close>

theorem addConnectomeEdge_keeps_existing_connection:
  assumes "edges c = Some es"
  shows "(\<forall>i<length es.
            joins (cells (edgeObjs c) (es ! i)) first second \<and>
            (\<forall>j<i. \<not> joins (cells (edgeObjs c) (es ! j)) first second) \<longrightarrow>
            addConnectomeEdge g first second colorValue c = (Return (es ! i), c)) \<and>
         (\<not> (\<exists>r\<in>set es. joins (cells (edgeObjs c) r) first second) \<longrightarrow>
            addConnectomeEdge g first second colorValue c =
              ((case updateConnectome g
                    (c\<lparr>edges := Some (es @ [next_free (edgeObjs c)]),
                       edgeObjs := \<lparr>cells = (cells (edgeObjs c))(next_free (edgeObjs c) :=
                                      \<lparr>edge_first = first, edge_second = second,
                                       edge_colorValue = colorValue\<rparr>),
                                    next_free = Suc (next_free (edgeObjs c))\<rparr>\<rparr>) of
                  None \<Rightarrow> Return (next_free (edgeObjs c)) | Some e \<Rightarrow> Throw e),
               c\<lparr>edges := Some (es @ [next_free (edgeObjs c)]),
                 edgeObjs := \<lparr>cells = (cells (edgeObjs c))(next_free (edgeObjs c) :=
                                \<lparr>edge_first = first, edge_second = second,
                                 edge_colorValue = colorValue\<rparr>),
                              next_free = Suc (next_free (edgeObjs c))\<rparr>\<rparr>))"
  using addConnectomeEdge_existing [OF assms] addConnectomeEdge_new [OF assms]
  by blast

text \<open>
  C10 as stated fails: with an undefined node color range, adding an edge that no edge of
  the list joins throws instead of returning the new edge, which is appended all the same.
\<close>

theorem addConnectomeEdge_counterexample:
  "edges exampleUnrangedConnectome = Some [0, 1] \<and>
   \<not> joins (cells (edgeObjs exampleUnrangedConnectome) 0) 5 7 \<and>
   \<not> joins (cells (edgeObjs exampleUnrangedConnectome) 1) 5 7 \<and>
   fst (addConnectomeEdge noGeometryFailure 5 7 (Finite 3) exampleUnrangedConnectome)
     = Throw NodeColorRangeUndefined \<and>
   edges (snd (addConnectomeEdge noGeometryFailure 5 7 (Finite 3) exampleUnrangedConnectome))
     = Some [0, 1, 2]"
  by (simp add: exampleUnrangedConnectome_def exampleConnectome_def addConnectomeEdge_def
      addTest_def joins_def updateConnectome_def alloc_def Let_def)

theorem addConnectomeEdge_keeps_existing_connection_witness:
  "edges exampleConnectome = Some [0, 1] \<and>
   addConnectomeEdge noGeometryFailure 2 1 (Finite 8) exampleConnectome = (Return 1, exampleConnectome) \<and>
   fst (addConnectomeEdge noGeometryFailure 0 2 (Finite 3) exampleConnectome) = Return 2 \<and>
   edges (snd (addConnectomeEdge noGeometryFailure 0 2 (Finite 3) exampleConnectome)) = Some [0, 1, 2]"
proof -
  have e: "edges exampleConnectome = Some [0, 1]"
    by (simp add: exampleConnectome_def)
  have k: "joins (cells (edgeObjs exampleConnectome) ([0, 1] ! 1)) 2 1 \<and>
           (\<forall>j<1. \<not> joins (cells (edgeObjs exampleConnectome) ([0, 1] ! j)) 2 1)"
    by (simp add: exampleConnectome_def joins_def)
  have j: "\<not> (\<exists>r\<in>set [0, 1]. joins (cells (edgeObjs exampleConnectome) r) 0 2)"
    by (simp add: exampleConnectome_def joins_def)
  have a: "addConnectomeEdge noGeometryFailure 2 1 (Finite 8) exampleConnectome
             = (Return 1, exampleConnectome)"
    using addConnectomeEdge_keeps_existing_connection [OF e, of 2 1 noGeometryFailure "Finite 8",
        THEN conjunct1, rule_format, of 1] k
    by simp
  have b: "fst (addConnectomeEdge noGeometryFailure 0 2 (Finite 3) exampleConnectome) = Return 2 \<and>
      edges (snd (addConnectomeEdge noGeometryFailure 0 2 (Finite 3) exampleConnectome))
        = Some [0, 1, 2]"
    using addConnectomeEdge_keeps_existing_connection [OF e, of 0 2 noGeometryFailure "Finite 3",
        THEN conjunct2, rule_format] j
    by (simp add: exampleConnectome_def updateConnectome_def noGeometryFailure_def)
  from e a b show ?thesis by simp
qed

subsection \<open>The scene observers\<close>

text \<open>
  C5. On a scene whose two observer slots hold observers, setting the azimuth or the
  elevation writes the field and passes the world once through the azimuth/elevation
  observer, applied to the pair of the azimuth and the elevation as they are after the
  write. Setting the volume scale writes the field and passes the world once through the
  zoom observer, applied to the new scale; the azimuth/elevation observer is not applied.
  Setting the crosshair position, the clip plane, its depth, azimuth and elevation, or
  the 2D pan writes the field and leaves the world as it was.
\<close>

theorem scene_setters_notify_their_observer:
  assumes "onAzimuthElevationChange sc = Some f" and "onZoom3DChange sc = Some g"
  shows "set_renderAzimuth azimuth (sc, w) =
           (sc\<lparr>sceneData := (sceneData sc)(''azimuth'' \<mapsto> VNum azimuth)\<rparr>,
            f (VNum azimuth) (get_renderElevation sc) w) \<and>
         set_renderElevation elevation (sc, w) =
           (sc\<lparr>sceneData := (sceneData sc)(''elevation'' \<mapsto> VNum elevation)\<rparr>,
            f (get_renderAzimuth sc) (VNum elevation) w) \<and>
         set_volScaleMultiplier scale (sc, w) =
           (Return (), sc\<lparr>sceneData := (sceneData sc)(''volScaleMultiplier'' \<mapsto> VNum scale)\<rparr>,
            g (VNum scale) w) \<and>
         set_crosshairPos p (sc, w) =
           (sc\<lparr>sceneData := (sceneData sc)(''crosshairPos'' \<mapsto> VArr p)\<rparr>, w) \<and>
         set_clipPlane p (sc, w) =
           (sc\<lparr>sceneData := (sceneData sc)(''clipPlane'' \<mapsto> VArr p)\<rparr>, w) \<and>
         set_clipPlaneDepthAziElev p (sc, w) =
           (sc\<lparr>sceneData := (sceneData sc)(''clipPlaneDepthAziElev'' \<mapsto> VArr p)\<rparr>, w) \<and>
         set_pan2Dxyzmm p (sc, w) =
           (sc\<lparr>sceneData := (sceneData sc)(''pan2Dxyzmm'' \<mapsto> VArr p)\<rparr>, w) \<and>
         get_renderAzimuth (fst (set_renderAzimuth azimuth (sc, w))) = VNum azimuth \<and>
         get_renderElevation (fst (set_renderElevation elevation (sc, w))) = VNum elevation \<and>
         get_volScaleMultiplier (fst (snd (set_volScaleMultiplier scale (sc, w)))) = VNum scale"
  using assms
  by (simp add: set_renderAzimuth_def set_renderElevation_def set_volScaleMultiplier_def
      set_crosshairPos_def set_clipPlane_def set_clipPlaneDepthAziElev_def set_pan2Dxyzmm_def
      notifyAzimuthElevation_def get_renderAzimuth_def get_renderElevation_def
      get_volScaleMultiplier_def getProp_def Let_def)

theorem scene_setters_notify_their_observer_witness:
  "onAzimuthElevationChange exampleRecordingScene = Some recordAzimuthElevation \<and>
   onZoom3DChange exampleRecordingScene = Some recordZoom \<and>
   snd (set_renderAzimuth (Finite 45) (exampleRecordingScene, []))
     = [AzimuthElevationChange (VNum (Finite 45)) (VNum (Finite 10))] \<and>
   snd (set_renderElevation (Finite 30) (exampleRecordingScene, []))
     = [AzimuthElevationChange (VNum (Finite 110)) (VNum (Finite 30))] \<and>
   snd (snd (set_volScaleMultiplier (Finite 2) (exampleRecordingScene, []))) = [Zoom3DChange (VNum (Finite 2))] \<and>
   snd (set_crosshairPos 0 (exampleRecordingScene, [])) = [] \<and>
   snd (set_clipPlane 1 (exampleRecordingScene, [])) = [] \<and>
   snd (set_clipPlaneDepthAziElev 2 (exampleRecordingScene, [])) = [] \<and>
   snd (set_pan2Dxyzmm 3 (exampleRecordingScene, [])) = []"
proof -
  have a: "onAzimuthElevationChange exampleRecordingScene = Some recordAzimuthElevation"
    and z: "onZoom3DChange exampleRecordingScene = Some recordZoom"
    by (simp_all add: exampleRecordingScene_def)
  have e: "get_renderElevation exampleRecordingScene = VNum (Finite 10)"
    and b: "get_renderAzimuth exampleRecordingScene = VNum (Finite 110)"
    by (simp_all add: exampleRecordingScene_def get_renderElevation_def get_renderAzimuth_def
        getProp_def INITIAL_SCENE_DATA_def)
  note t = scene_setters_notify_their_observer [OF a z, of _ "[]"]
  show ?thesis
    using a z e b t [of "Finite 45" "Finite 30" "Finite 2" 0]
      t [of "Finite 45" "Finite 30" "Finite 2" 1] t [of "Finite 45" "Finite 30" "Finite 2" 2]
      t [of "Finite 45" "Finite 30" "Finite 2" 3]
    by (simp add: recordAzimuthElevation_def recordZoom_def)
qed

subsection \<open>Assigning the options\<close>

lemma set_opts_result:
  "set_opts options (d, h) =
     (d\<lparr>data := (data d)\<lparr>opts := next_free (configObjs h)\<rparr>\<rparr>,
      h\<lparr>configObjs := \<lparr>cells = (cells (configObjs h))
                                    (next_free (configObjs h) := cells (configObjs h) options),
                         next_free = Suc (next_free (configObjs h))\<rparr>\<rparr>)"
  by (simp add: set_opts_def alloc_def)

text \<open>
  C8 (as amended). After \<open>doc.opts = o\<close>, for an options record \<open>o\<close> of the heap, the
  document holds a new record, not \<open>o\<close>, with the property values of \<open>o\<close>, and \<open>o\<close>
  and the arrays are as they were. A later assignment to a property of \<open>o\<close> does not
  change the document's record. The copy has one level: an array-valued option of the
  document is the same array as in \<open>o\<close>, so a later write of an element of that array
  through \<open>o\<close> is read through \<open>doc.opts\<close>.
\<close>

theorem set_opts_copies_one_level:
  assumes "options < next_free (configObjs h)"
  shows "case set_opts options (d, h) of (d', h') \<Rightarrow>
           get_opts d' \<noteq> options \<and>
           cells (configObjs h') (get_opts d') = cells (configObjs h) options \<and>
           cells (configObjs h') options = cells (configObjs h) options \<and>
           arrays h' = arrays h \<and>
           (\<forall>k v. cells (configObjs (setConfigOption options k v h')) (get_opts d') =
                  cells (configObjs h') (get_opts d')) \<and>
           (\<forall>k a i v. cells (configObjs h) options k = Some (VArr a) \<longrightarrow>
                  readOptionArray h' d' k = Some (cells (arrays h) a) \<and>
                  readOptionArray (setArrayElement a i v h') d' k =
                    Some ((cells (arrays h) a)[i := v]))"
  using assms
  by (auto simp: set_opts_result get_opts_def setConfigOption_def setArrayElement_def assign_def
      readOptionArray_def configOption_def getProp_def)

text \<open>
  C8 as stated fails: after the assignment, writing the first element of the
  \<open>backColor\<close> array reached through \<open>o\<close> changes what \<open>doc.opts.backColor\<close> reads.
\<close>

theorem set_opts_counterexample:
  "configOption exampleOptionsHeap 0 ''backColor'' = VArr 6 \<and>
   readOptionArray (snd (set_opts 0 (exampleDocument, exampleOptionsHeap)))
       (fst (set_opts 0 (exampleDocument, exampleOptionsHeap))) ''backColor''
     = Some [VNum (Finite 0), VNum (Finite 0), VNum (Finite 0), VNum (Finite 1)] \<and>
   readOptionArray
       (setArrayElement 6 0 (VNum (Finite 1)) (snd (set_opts 0 (exampleDocument, exampleOptionsHeap))))
       (fst (set_opts 0 (exampleDocument, exampleOptionsHeap))) ''backColor''
     = Some [VNum (Finite 1), VNum (Finite 0), VNum (Finite 0), VNum (Finite 1)]"
  by (simp add: set_opts_result exampleOptionsHeap_def exampleDocument_def emptyHeap_def
      readOptionArray_def configOption_def getProp_def get_opts_def setArrayElement_def assign_def
      newDocumentWith_def moduleArrays_def)

theorem set_opts_copies_one_level_witness:
  "(0::nat) < next_free (configObjs exampleOptionsHeap) \<and>
   get_opts (fst (set_opts 0 (exampleDocument, exampleOptionsHeap))) \<noteq> 0 \<and>
   configOption (setConfigOption 0 ''textHeight'' (VNum (Finite 1))
                  (snd (set_opts 0 (exampleDocument, exampleOptionsHeap))))
       (get_opts (fst (set_opts 0 (exampleDocument, exampleOptionsHeap)))) ''textHeight''
     = VNum (Finite (6 / 100)) \<and>
   readOptionArray
       (setArrayElement 6 3 (VNum (Finite 0)) (snd (set_opts 0 (exampleDocument, exampleOptionsHeap))))
       (fst (set_opts 0 (exampleDocument, exampleOptionsHeap))) ''backColor''
     = Some [VNum (Finite 0), VNum (Finite 0), VNum (Finite 0), VNum (Finite 0)]"
proof -
  have a: "(0::nat) < next_free (configObjs exampleOptionsHeap)"
    by (simp add: exampleOptionsHeap_def)
  have c: "cells (configObjs exampleOptionsHeap) 0 ''backColor'' = Some (VArr 6)"
    and t: "cells (configObjs exampleOptionsHeap) 0 ''textHeight'' = Some (VNum (Finite (6 / 100)))"
    and b: "cells (arrays exampleOptionsHeap) 6 =
              [VNum (Finite 0), VNum (Finite 0), VNum (Finite 0), VNum (Finite 1)]"
    by (simp_all add: exampleOptionsHeap_def)
  obtain d' h' where r: "set_opts 0 (exampleDocument, exampleOptionsHeap) = (d', h')"
    by (cases "set_opts 0 (exampleDocument, exampleOptionsHeap)")
  from set_opts_copies_one_level [OF a, of exampleDocument] r
  have 1: "get_opts d' \<noteq> 0"
    and 2: "cells (configObjs h') (get_opts d') = cells (configObjs exampleOptionsHeap) 0"
    and 3: "\<And>k v. cells (configObjs (setConfigOption 0 k v h')) (get_opts d') =
                  cells (configObjs h') (get_opts d')"
    and 4: "\<And>k a i v. cells (configObjs exampleOptionsHeap) 0 k = Some (VArr a) \<Longrightarrow>
                  readOptionArray (setArrayElement a i v h') d' k =
                    Some ((cells (arrays exampleOptionsHeap) a)[i := v])"
    by auto
  from 3 [of "''textHeight''" "VNum (Finite 1)"] 2 t
  have 5: "configOption (setConfigOption 0 ''textHeight'' (VNum (Finite 1)) h') (get_opts d')
             ''textHeight'' = VNum (Finite (6 / 100))"
    by (simp add: configOption_def getProp_def)
  from 4 [OF c, of 3 "VNum (Finite 0)"] b
  have 6: "readOptionArray (setArrayElement 6 3 (VNum (Finite 0)) h') d' ''backColor''
             = Some [VNum (Finite 0), VNum (Finite 0), VNum (Finite 0), VNum (Finite 0)]"
    by simp
  from a 1 5 6 r show ?thesis by simp
qed

subsection \<open>The image-options registry\<close>

text \<open>
  C1. A second call of \<open>addImageOptions\<close> for an image that is already registered
  should leave the document unchanged. The code does not: the test
  \<open>!this.hasImage(image)\<close> is closed before the record is tagged, pushed and mapped,
  so it skips the derivation of the name and nothing else. For an image that is live and
  registered at index 0 of a sequence of three records, a second call with its record
  returns with a sequence of four records, the record appended once more, and with the
  identifier moved to index 3.
\<close>

theorem addImageOptions_twice_appends_again:
  "hasImage exampleRegistered exampleVolume \<and>
   getImageOptions exampleRegistered exampleVolume = IsRecord 0 \<and>
   length (imageOptionsArray (data exampleRegistered)) = 3 \<and>
   fst (addImageOptions exampleEnv exampleVolume 0 (exampleRegistered, exampleRecordsHeap)) = Return () \<and>
   imageOptionsArray (data (fst (snd
       (addImageOptions exampleEnv exampleVolume 0 (exampleRegistered, exampleRecordsHeap)))))
     = [0, 1, 2, 0] \<and>
   imageOptionsMap (fst (snd
       (addImageOptions exampleEnv exampleVolume 0 (exampleRegistered, exampleRecordsHeap)))) ''a''
     = Some 3"
  by (simp add: exampleRegistered_def exampleDocument_def exampleData_def newDocumentWith_def
      exampleVolume_def exampleOverlay_def exampleThird_def
      hasImage_def getImageOptions_def addImageOptions_def nameImageOptions_def Let_def)







subsection \<open>Export\<close>

lemma setImageOption_frame [simp]:
  "arrays (setImageOption r k v h) = arrays h"
  "configObjs (setImageOption r k v h) = configObjs h"
  "next_free (imageOptionsObjs (setImageOption r k v h)) = next_free (imageOptionsObjs h)"
  by (simp_all add: setImageOption_def assign_def)

lemma setImageOption_cells:
  "cells (imageOptionsObjs (setImageOption r k v h)) r' =
     (if r' = r then (cells (imageOptionsObjs h) r)(k \<mapsto> v) else cells (imageOptionsObjs h) r')"
  by (simp add: setImageOption_def assign_def)

lemma newImageOptions_result:
  "newImageOptions ob h =
     (next_free (imageOptionsObjs h),
      h\<lparr>imageOptionsObjs := \<lparr>cells = (cells (imageOptionsObjs h))(next_free (imageOptionsObjs h) := ob),
                             next_free = Suc (next_free (imageOptionsObjs h))\<rparr>\<rparr>)"
  by (simp add: newImageOptions_def alloc_def)

lemma refreshOverlay_frame [simp]:
  "arrays (refreshOverlay v r h) = arrays h"
  "configObjs (refreshOverlay v r h) = configObjs h"
  "next_free (imageOptionsObjs (refreshOverlay v r h)) = next_free (imageOptionsObjs h)"
  by (simp_all add: refreshOverlay_def)

lemma refreshOverlay_cells:
  "cells (imageOptionsObjs (refreshOverlay v r h)) r' =
     (if r' = r then overlayRefreshed v (cells (imageOptionsObjs h) r)
      else cells (imageOptionsObjs h) r')"
  by (simp add: refreshOverlay_def overlayRefreshed_def setImageOption_cells)

lemma refreshBase_frame [simp]:
  "arrays (refreshBase v r h) = arrays h"
  "configObjs (refreshBase v r h) = configObjs h"
  "next_free (imageOptionsObjs (refreshBase v r h)) = next_free (imageOptionsObjs h)"
  by (simp_all add: refreshBase_def)

lemma refreshBase_cells:
  "cells (imageOptionsObjs (refreshBase v r h)) r' =
     (if r' = r then baseRefreshed v (cells (imageOptionsObjs h) r)
      else cells (imageOptionsObjs h) r')"
  by (simp add: refreshBase_def baseRefreshed_def setImageOption_cells)

lemma overlayRefreshed_other:
  "k \<notin> displayFields \<Longrightarrow> overlayRefreshed v ob k = ob k"
  by (auto simp: overlayRefreshed_def displayFields_def)

lemma baseRefreshed_other:
  "k \<notin> displayFields \<Longrightarrow> baseRefreshed v ob k = ob k"
  by (auto simp: baseRefreshed_def displayFields_def)

lemma exportFrame_refl: "exportFrame T h h"
  by (simp add: exportFrame_def)

lemma exportFrame_trans:
  assumes a: "exportFrame T1 h h1" and b: "exportFrame T2 h1 h2" and "T1 \<subseteq> T" and "T2 \<subseteq> T"
  shows "exportFrame T h h2"
  unfolding exportFrame_def
proof (intro conjI allI impI)
  from a b show "arrays h2 = arrays h" and "configObjs h2 = configObjs h"
    and "next_free (imageOptionsObjs h) \<le> next_free (imageOptionsObjs h2)"
    by (simp_all add: exportFrame_def)
next
  fix r k
  assume r: "r < next_free (imageOptionsObjs h)" and k: "k \<notin> displayFields"
  with a have "r < next_free (imageOptionsObjs h1)"
    and "cells (imageOptionsObjs h1) r k = cells (imageOptionsObjs h) r k"
    by (auto simp: exportFrame_def)
  with b k show "cells (imageOptionsObjs h2) r k = cells (imageOptionsObjs h) r k"
    by (simp add: exportFrame_def)
next
  fix r
  assume r: "r < next_free (imageOptionsObjs h)" and t: "r \<notin> T"
  with assms have "r \<notin> T1" and "r \<notin> T2" by auto
  with a r have "r < next_free (imageOptionsObjs h1)"
    and "cells (imageOptionsObjs h1) r = cells (imageOptionsObjs h) r"
    by (auto simp: exportFrame_def)
  with b \<open>r \<notin> T2\<close> show "cells (imageOptionsObjs h2) r = cells (imageOptionsObjs h) r"
    by (simp add: exportFrame_def)
qed

lemma exportFrame_refreshOverlay:
  "exportFrame {r} h (refreshOverlay v r h)"
  by (simp add: exportFrame_def refreshOverlay_cells overlayRefreshed_other)

lemma exportFrame_refreshBase:
  "exportFrame {r} h (refreshBase v r h)"
  by (simp add: exportFrame_def refreshBase_cells baseRefreshed_other)

lemma exportFrame_newImageOptions:
  "exportFrame {} h (snd (newImageOptions ob h))"
  by (simp add: exportFrame_def newImageOptions_result)

lemma overlayOptions_frame:
  assumes "overlayOptions env d v h = (out, h1)"
  shows "exportFrame (lookedUp d [v]) h h1"
proof (cases "getImageOptions d v")
  case IsNull
  with assms have "h1 = snd (newImageOptions (defaultImageOptions env) h)"
    by (auto simp: overlayOptions_def split: prod.splits)
  then show ?thesis
    using exportFrame_newImageOptions [of h "defaultImageOptions env"]
    by (simp add: exportFrame_def)
next
  case IsUndefined
  with assms show ?thesis
    by (simp add: overlayOptions_def exportFrame_refl)
next
  case (IsRecord r)
  with assms have "h1 = h \<or> h1 = setImageOption r ''imageType'' (NVIMAGE_TYPE_NII env) h"
    by (auto simp: overlayOptions_def split: if_splits)
  with IsRecord show ?thesis
    by (auto simp: exportFrame_def lookedUp_def setImageOption_cells displayFields_def)
qed

lemma getImageOptions_member:
  "getImageOptions d v = IsRecord r \<Longrightarrow> r \<in> set (imageOptionsArray (data d))"
  by (auto simp: getImageOptions_def split: option.splits if_splits)

lemma getImageOptions_unmapped:
  "imageOptionsMap d (img_id v) = None \<Longrightarrow> getImageOptions d v = IsNull"
  by (simp add: getImageOptions_def)

lemma overlayOptions_null:
  "getImageOptions d v = IsNull \<Longrightarrow>
     overlayOptions env d v h =
       (Return (next_free (imageOptionsObjs h)), snd (newImageOptions (defaultImageOptions env) h))"
  by (simp add: overlayOptions_def newImageOptions_result)

lemma overlayOptions_throws:
  "overlayOptions env d v h = (Throw e, h1) \<Longrightarrow> getImageOptions d v = IsUndefined \<and> h1 = h"
  by (auto simp: overlayOptions_def newImageOptions_result split: lookup.splits)

lemma overlayOptions_returns:
  "getImageOptions d v \<noteq> IsUndefined \<Longrightarrow> \<exists>r h1. overlayOptions env d v h = (Return r, h1)"
  by (cases "getImageOptions d v") (simp_all add: overlayOptions_def newImageOptions_result)

lemma overlay_step_frame:
  assumes "overlayOptions env d v h = (Return r, h1)"
  shows "exportFrame (lookedUp d [v]) h (refreshOverlay v r h1)"
proof (cases "getImageOptions d v")
  case IsNull
  with assms have "r = next_free (imageOptionsObjs h)"
    and "h1 = snd (newImageOptions (defaultImageOptions env) h)"
    by (simp_all add: overlayOptions_null)
  then show ?thesis
    by (simp add: exportFrame_def refreshOverlay_cells newImageOptions_result)
next
  case IsUndefined
  with assms show ?thesis
    by (simp add: overlayOptions_def)
next
  case (IsRecord r')
  with assms have r: "r' = r" and "h1 = h \<or> h1 = setImageOption r ''imageType'' (NVIMAGE_TYPE_NII env) h"
    by (auto simp: overlayOptions_def split: if_splits)
  with IsRecord show ?thesis
    by (auto simp: exportFrame_def lookedUp_def refreshOverlay_cells setImageOption_cells
        overlayRefreshed_other displayFields_def)
qed

lemma lookedUp_head: "lookedUp d [v] \<subseteq> lookedUp d (v # vs)"
  by (auto simp: lookedUp_def)

lemma lookedUp_tail: "lookedUp d vs \<subseteq> lookedUp d (v # vs)"
  by (auto simp: lookedUp_def)

lemma exportOverlays_frame:
  "exportOverlays env d vs i (arr, blobs, idx) h = (out, h') \<Longrightarrow> exportFrame (lookedUp d vs) h h'"
proof (induction vs arbitrary: i arr blobs idx h)
  case Nil
  then show ?case by (simp add: exportFrame_refl)
next
  case (Cons v vs)
  obtain o1 h1 where o: "overlayOptions env d v h = (o1, h1)"
    by (cases "overlayOptions env d v h")
  show ?case
  proof (cases o1)
    case (Throw e)
    with Cons.prems o have "h' = h1" by simp
    moreover from o Throw have "h1 = h"
      using overlayOptions_throws [of env d v h e h1] by simp
    ultimately show ?thesis
      by (simp add: exportFrame_refl)
  next
    case (Return r)
    with Cons.prems o have
      "exportOverlays env d vs (Suc i)
         (arr @ [r], blobs @ [encodeVolume env v], idx(img_id v \<mapsto> i)) (refreshOverlay v r h1) = (out, h')"
      by simp
    then have "exportFrame (lookedUp d vs) (refreshOverlay v r h1) h'"
      by (rule Cons.IH)
    moreover have "exportFrame (lookedUp d [v]) h (refreshOverlay v r h1)"
      using overlay_step_frame [of env d v h r h1] o Return by simp
    ultimately show ?thesis
      by (rule exportFrame_trans [OF _ _ lookedUp_head lookedUp_tail, rotated])
  qed
qed

lemma exportOverlays_returns:
  "\<forall>u\<in>set vs. getImageOptions d u \<noteq> IsUndefined \<Longrightarrow>
     \<exists>ex h'. exportOverlays env d vs i (arr, blobs, idx) h = (Return ex, h')"
proof (induction vs arbitrary: i arr blobs idx h)
  case Nil
  then show ?case by simp
next
  case (Cons v vs)
  from Cons.prems have "getImageOptions d v \<noteq> IsUndefined"
    by simp
  then obtain r h1 where o: "overlayOptions env d v h = (Return r, h1)"
    using overlayOptions_returns [of d v env h] by blast
  from Cons.prems have "\<forall>u\<in>set vs. getImageOptions d u \<noteq> IsUndefined"
    by simp
  from Cons.IH [OF this] o show ?case by simp
qed

lemma exportOverlays_array:
  "exportOverlays env d vs i (arr, blobs, idx) h = (Return (arr', blobs', idx'), h') \<Longrightarrow>
     length arr' = length arr + length vs \<and> take (length arr) arr' = arr"
proof (induction vs arbitrary: i arr blobs idx h)
  case Nil
  then show ?case by simp
next
  case (Cons v vs)
  obtain o1 h1 where o: "overlayOptions env d v h = (o1, h1)"
    by (cases "overlayOptions env d v h")
  with Cons.prems obtain r where r: "o1 = Return r"
    by (cases o1) simp_all
  with Cons.prems o have
    "exportOverlays env d vs (Suc i)
       (arr @ [r], blobs @ [encodeVolume env v], idx(img_id v \<mapsto> i)) (refreshOverlay v r h1)
       = (Return (arr', blobs', idx'), h')"
    by simp
  from Cons.IH [OF this] have l: "length arr' = length (arr @ [r]) + length vs"
    and t: "take (length (arr @ [r])) arr' = arr @ [r]"
    by simp_all
  from t have "take (length arr) (take (length (arr @ [r])) arr') = arr"
    by simp
  then have "take (length arr) arr' = arr"
    by (simp add: min_def)
  with l show ?case by simp
qed

lemma exportOverlays_unregistered:
  assumes "exportOverlays env d vs i (arr, blobs, idx) h = (Return (arr', blobs', idx'), h')"
    and "\<forall>r\<in>set (imageOptionsArray (data d)). r < next_free (imageOptionsObjs h)"
    and "j < length vs" and "imageOptionsMap d (img_id (vs ! j)) = None"
  shows "next_free (imageOptionsObjs h) \<le> arr' ! (length arr + j) \<and>
         cells (imageOptionsObjs h') (arr' ! (length arr + j)) =
           overlayRefreshed (vs ! j) (defaultImageOptions env)"
  using assms
proof (induction vs arbitrary: i arr blobs idx h j)
  case Nil
  then show ?case by simp
next
  case (Cons v vs)
  obtain o1 h1 where o: "overlayOptions env d v h = (o1, h1)"
    by (cases "overlayOptions env d v h")
  with Cons.prems(1) obtain r where r: "o1 = Return r"
    by (cases o1) simp_all
  let ?h2 = "refreshOverlay v r h1"
  from Cons.prems(1) o r have rest:
    "exportOverlays env d vs (Suc i)
       (arr @ [r], blobs @ [encodeVolume env v], idx(img_id v \<mapsto> i)) ?h2
       = (Return (arr', blobs', idx'), h')"
    by simp
  from overlay_step_frame [of env d v h r h1] o r
  have mono: "next_free (imageOptionsObjs h) \<le> next_free (imageOptionsObjs ?h2)"
    by (simp add: exportFrame_def)
  show ?case
  proof (cases j)
    case 0
    with Cons.prems(4) have n: "getImageOptions d v = IsNull"
      by (simp add: getImageOptions_unmapped)
    with o r have rr: "r = next_free (imageOptionsObjs h)"
      and h1: "h1 = snd (newImageOptions (defaultImageOptions env) h)"
      by (simp_all add: overlayOptions_null)
    have c2: "cells (imageOptionsObjs ?h2) r = overlayRefreshed v (defaultImageOptions env)"
      by (simp add: refreshOverlay_cells h1 rr newImageOptions_result)
    have lt: "r < next_free (imageOptionsObjs ?h2)"
      by (simp add: h1 rr newImageOptions_result)
    have "r \<notin> lookedUp d vs"
      using Cons.prems(2) rr by (auto simp: lookedUp_def dest: getImageOptions_member)
    with exportOverlays_frame [OF rest] lt
    have "cells (imageOptionsObjs h') r = cells (imageOptionsObjs ?h2) r"
      by (simp add: exportFrame_def)
    moreover from exportOverlays_array [OF rest] have "arr' ! length arr = r"
      by (metis length_append_singleton lessI nth_append_length nth_take)
    ultimately show ?thesis using 0 c2 rr by simp
  next
    case (Suc j')
    from Cons.prems(2) mono
    have wf: "\<forall>r\<in>set (imageOptionsArray (data d)). r < next_free (imageOptionsObjs ?h2)"
      by fastforce
    from Suc Cons.prems(3,4) have "j' < length vs" and "imageOptionsMap d (img_id (vs ! j')) = None"
      by simp_all
    from Cons.IH [OF rest wf this] mono Suc show ?thesis
      by simp
  qed
qed

lemma exportVolumes_frame:
  assumes "exportVolumes env d h = (out, h')"
  shows "exportFrame (refreshedRecords d) h h'"
proof (cases "volumes d")
  case Nil
  with assms show ?thesis
    by (simp add: exportVolumes_def exportFrame_refl)
next
  case (Cons v0 vs)
  obtain r0 h1 where b: "(case imageOptionsArray (data d) of
                   [] \<Rightarrow> newImageOptions (defaultImageOptions env) h
                 | r # rs \<Rightarrow> (r, h)) = (r0, h1)"
    by (metis surj_pair)
  obtain o2 h2 where l: "exportOverlays env d vs 1
                       ([r0], [encodeVolume env v0], [img_id v0 \<mapsto> 0])
                       (refreshBase v0 r0 h1) = (o2, h2)"
    by (metis surj_pair)
  from assms Cons b l have h': "h' = h2"
    by (auto simp: exportVolumes_def split: outcome.splits)
  have f1: "exportFrame (set (take 1 (imageOptionsArray (data d)))) h (refreshBase v0 r0 h1)"
  proof (cases "imageOptionsArray (data d)")
    case Nil
    with b have "(r0, h1) = newImageOptions (defaultImageOptions env) h"
      by simp
    then have "r0 = next_free (imageOptionsObjs h)"
      and "h1 = snd (newImageOptions (defaultImageOptions env) h)"
      by (simp_all add: newImageOptions_result)
    then show ?thesis
      by (simp add: exportFrame_def refreshBase_cells newImageOptions_result)
  next
    case (Cons r rs)
    with b have "r0 = r" and "h1 = h" by simp_all
    with Cons show ?thesis
      using exportFrame_refreshBase [of r h v0] by simp
  qed
  have f2: "exportFrame (lookedUp d vs) (refreshBase v0 r0 h1) h2"
    using l by (rule exportOverlays_frame)
  have "exportFrame (set (take 1 (imageOptionsArray (data d))) \<union> lookedUp d vs) h h2"
    by (rule exportFrame_trans [OF f1 f2]) simp_all
  with Cons h' show ?thesis
    by (simp add: refreshedRecords_def)
qed

lemma exportVolumes_returns:
  assumes "\<forall>u\<in>set (tl (volumes d)). getImageOptions d u \<noteq> IsUndefined"
  shows "\<exists>ex dr h'. exportVolumes env d h = (Return (ex, dr), h')"
proof (cases "volumes d")
  case Nil
  then show ?thesis
    by (simp add: exportVolumes_def)
next
  case (Cons v0 vs)
  obtain r0 h1 where b: "(case imageOptionsArray (data d) of
                   [] \<Rightarrow> newImageOptions (defaultImageOptions env) h
                 | r # rs \<Rightarrow> (r, h)) = (r0, h1)"
    by (metis surj_pair)
  from assms Cons have "\<forall>u\<in>set vs. getImageOptions d u \<noteq> IsUndefined"
    by simp
  from exportOverlays_returns [OF this, of env 1 "[r0]" "[encodeVolume env v0]"
      "[img_id v0 \<mapsto> 0]" "refreshBase v0 r0 h1"]
  obtain arr' blobs' idx' h2 where "exportOverlays env d vs 1
                       ([r0], [encodeVolume env v0], [img_id v0 \<mapsto> 0])
                       (refreshBase v0 r0 h1) = (Return (arr', blobs', idx'), h2)"
    by (metis prod_cases3)
  with Cons b show ?thesis
    by (simp add: exportVolumes_def)
qed

lemma exportVolumes_unregistered:
  assumes "exportVolumes env d h = (Return ((arr', blobs', idx'), dr), h')"
    and "\<forall>r\<in>set (imageOptionsArray (data d)). r < next_free (imageOptionsObjs h)"
    and "0 < i" and "i < length (volumes d)"
    and "imageOptionsMap d (img_id (volumes d ! i)) = None"
  shows "length arr' = length (volumes d) \<and>
         next_free (imageOptionsObjs h) \<le> arr' ! i \<and>
         cells (imageOptionsObjs h') (arr' ! i) =
           overlayRefreshed (volumes d ! i) (defaultImageOptions env)"
proof (cases "volumes d")
  case Nil
  with assms(4) show ?thesis by simp
next
  case (Cons v0 vs)
  obtain r0 h1 where b: "(case imageOptionsArray (data d) of
                   [] \<Rightarrow> newImageOptions (defaultImageOptions env) h
                 | r # rs \<Rightarrow> (r, h)) = (r0, h1)"
    by (metis surj_pair)
  let ?h2 = "refreshBase v0 r0 h1"
  from assms(1) Cons b have l: "exportOverlays env d vs 1
                       ([r0], [encodeVolume env v0], [img_id v0 \<mapsto> 0]) ?h2
                     = (Return (arr', blobs', idx'), h')"
    by (auto simp: exportVolumes_def split: outcome.splits prod.splits)
  from b have "next_free (imageOptionsObjs h) \<le> next_free (imageOptionsObjs h1)"
    by (cases "imageOptionsArray (data d)") (auto simp: newImageOptions_result)
  then have mono: "next_free (imageOptionsObjs h) \<le> next_free (imageOptionsObjs ?h2)"
    by simp
  with assms(2) have wf: "\<forall>r\<in>set (imageOptionsArray (data d)). r < next_free (imageOptionsObjs ?h2)"
    by fastforce
  from assms(3,4) Cons obtain j where j: "i = Suc j" and jl: "j < length vs"
    by (cases i) simp_all
  with assms(5) Cons have u: "imageOptionsMap d (img_id (vs ! j)) = None"
    by simp
  from exportOverlays_unregistered [OF l wf jl u] exportOverlays_array [OF l] mono j Cons
  show ?thesis by simp
qed

lemma exportVolumes_base:
  assumes "exportVolumes env d h = (out, h')"
    and "volumes d = v0 # vs" and "imageOptionsArray (data d) = r0 # rs"
    and "r0 < next_free (imageOptionsObjs h)" and "r0 \<notin> lookedUp d vs"
  shows "cells (imageOptionsObjs h') r0 = baseRefreshed v0 (cells (imageOptionsObjs h) r0)"
proof -
  obtain o2 h2 where l: "exportOverlays env d vs 1
                       ([r0], [encodeVolume env v0], [img_id v0 \<mapsto> 0])
                       (refreshBase v0 r0 h) = (o2, h2)"
    by (metis surj_pair)
  from assms(1-3) l have "h' = h2"
    by (auto simp: exportVolumes_def split: outcome.splits)
  moreover from exportOverlays_frame [OF l] assms(4,5)
  have "cells (imageOptionsObjs h2) r0 = cells (imageOptionsObjs (refreshBase v0 r0 h)) r0"
    by (simp add: exportFrame_def)
  ultimately show ?thesis
    by (simp add: refreshBase_cells)
qed

lemma exportOpts_result:
  "exportOpts d h =
     (next_free (configObjs h),
      let h1 = h\<lparr>configObjs := \<lparr>cells = (cells (configObjs h))
                                      (next_free (configObjs h) := cells (configObjs h) (get_opts d)),
                                  next_free = Suc (next_free (configObjs h))\<rparr>\<rparr>
      in if configOption h1 (get_opts d) ''meshThicknessOn2D'' = VNum PosInf
         then setConfigOption (next_free (configObjs h)) ''meshThicknessOn2D'' (VStr ''infinity'') h1
         else h1)"
  by (simp add: exportOpts_def alloc_def Let_def)

lemma exportOpts_frame:
  "arrays (snd (exportOpts d h)) = arrays h"
  "imageOptionsObjs (snd (exportOpts d h)) = imageOptionsObjs h"
  "r < next_free (configObjs h) \<Longrightarrow>
     cells (configObjs (snd (exportOpts d h))) r = cells (configObjs h) r"
  by (simp_all add: exportOpts_result Let_def setConfigOption_def assign_def)


lemma json_unfold:
  "json env (d, h) =
     (case exportVolumes env d (snd (exportOpts d h)) of
        (Throw e, h2) \<Rightarrow> (Throw e, d, h2)
      | (Return ((arr, blobs, idx), drawing), h2) \<Rightarrow>
          (Return
             \<lparr>exp_encodedImageBlobs = blobs,
              exp_encodedDrawingBlob = drawing,
              exp_previewImageDataURL = previewImageDataURL (data d),
              exp_imageOptionsMap = idx,
              exp_imageOptionsArray = arr,
              exp_sceneData = sceneData (scene d),
              exp_opts = fst (exportOpts d h),
              exp_meshesString = serializeMeshes env (filter (\<lambda>m. \<not> isConnectome m) (meshes d)),
              exp_labels = labels (data d),
              exp_connectomes = map (connectomeJSON env) (filter isConnectome (meshes d)),
              exp_customData = customData (data d)\<rparr>,
           d, h2))"
  by (simp add: json_def split: prod.splits outcome.splits)

lemma json_heap:
  assumes "json env (d, h) = (out, d', h')"
  shows "d' = d \<and> (\<exists>o2. exportVolumes env d (snd (exportOpts d h)) = (o2, h'))"
  using assms
  by (auto simp: json_unfold split: prod.splits outcome.splits)


text \<open>
  C2 (as amended). Whatever way \<open>json\<close> ends, the document it leaves is the document
  it was given: the options reference, the scene data, the labels, the registry map, the
  volumes, the drawing and the load-option sequence are the same. In the heap, the arrays
  and the options records that existed are as they were. Of the load-option records that
  existed, only those of the live volumes (the first of the sequence and the records
  looked up for the later volumes) are written, and only in their display fields: color
  map, color-map label, opacity, the calibration bounds and the image type. These are
  written in place: the first record of the sequence, when no later volume is mapped to
  it, holds after the call the base volume's color map and opacity, each calibration
  bound of the base volume that is a number other than zero, and \<open>NaN\<close> for a bound
  that the base volume does not have; its color-map label and image type are as before.
\<close>

theorem json_writes_display_fields_only:
  assumes "json env (d, h) = (out, d', h')"
  shows "d' = d \<and>
         arrays h' = arrays h \<and>
         (\<forall>r<next_free (configObjs h). cells (configObjs h') r = cells (configObjs h) r) \<and>
         (\<forall>r<next_free (imageOptionsObjs h).
            (\<forall>k. k \<notin> displayFields \<longrightarrow>
               cells (imageOptionsObjs h') r k = cells (imageOptionsObjs h) r k) \<and>
            (r \<notin> refreshedRecords d \<longrightarrow>
               cells (imageOptionsObjs h') r = cells (imageOptionsObjs h) r)) \<and>
         (\<forall>v0 vs r0 rs.
            volumes d = v0 # vs \<and> imageOptionsArray (data d) = r0 # rs \<and>
            r0 < next_free (imageOptionsObjs h) \<and> r0 \<notin> lookedUp d vs \<longrightarrow>
            cells (imageOptionsObjs h') r0 ''colormap'' = Some (VStr (colormap v0)) \<and>
            cells (imageOptionsObjs h') r0 ''opacity'' = Some (VNum (opacity v0)) \<and>
            (\<forall>n. cal_max v0 = Some n \<and> n \<noteq> Finite 0 \<longrightarrow>
               cells (imageOptionsObjs h') r0 ''cal_max'' = Some (VNum n)) \<and>
            (\<forall>n. cal_min v0 = Some n \<and> n \<noteq> Finite 0 \<longrightarrow>
               cells (imageOptionsObjs h') r0 ''cal_min'' = Some (VNum n)) \<and>
            (cal_max v0 = None \<longrightarrow>
               cells (imageOptionsObjs h') r0 ''cal_max'' = Some (VNum NaN)) \<and>
            (cal_min v0 = None \<longrightarrow>
               cells (imageOptionsObjs h') r0 ''cal_min'' = Some (VNum NaN)) \<and>
            cells (imageOptionsObjs h') r0 ''colormapLabel''
              = cells (imageOptionsObjs h) r0 ''colormapLabel'' \<and>
            cells (imageOptionsObjs h') r0 ''imageType''
              = cells (imageOptionsObjs h) r0 ''imageType'')"
proof -
  let ?h1 = "snd (exportOpts d h)"
  from json_heap [OF assms] obtain o2 where d: "d' = d"
    and v: "exportVolumes env d ?h1 = (o2, h')"
    by blast
  note f = exportVolumes_frame [OF v, unfolded exportFrame_def]
  have i: "imageOptionsObjs ?h1 = imageOptionsObjs h"
    by (rule exportOpts_frame)
  have 1: "arrays h' = arrays h"
    using f by (simp add: exportOpts_frame)
  have 2: "\<forall>r<next_free (configObjs h). cells (configObjs h') r = cells (configObjs h) r"
    using f by (simp add: exportOpts_frame)
  have 3: "\<forall>r<next_free (imageOptionsObjs h).
            (\<forall>k. k \<notin> displayFields \<longrightarrow>
               cells (imageOptionsObjs h') r k = cells (imageOptionsObjs h) r k) \<and>
            (r \<notin> refreshedRecords d \<longrightarrow>
               cells (imageOptionsObjs h') r = cells (imageOptionsObjs h) r)"
    using f by (simp add: i)
  have 4: "cells (imageOptionsObjs h') r0 ''colormap'' = Some (VStr (colormap v0)) \<and>
            cells (imageOptionsObjs h') r0 ''opacity'' = Some (VNum (opacity v0)) \<and>
            (\<forall>n. cal_max v0 = Some n \<and> n \<noteq> Finite 0 \<longrightarrow>
               cells (imageOptionsObjs h') r0 ''cal_max'' = Some (VNum n)) \<and>
            (\<forall>n. cal_min v0 = Some n \<and> n \<noteq> Finite 0 \<longrightarrow>
               cells (imageOptionsObjs h') r0 ''cal_min'' = Some (VNum n)) \<and>
            (cal_max v0 = None \<longrightarrow>
               cells (imageOptionsObjs h') r0 ''cal_max'' = Some (VNum NaN)) \<and>
            (cal_min v0 = None \<longrightarrow>
               cells (imageOptionsObjs h') r0 ''cal_min'' = Some (VNum NaN)) \<and>
            cells (imageOptionsObjs h') r0 ''colormapLabel''
              = cells (imageOptionsObjs h) r0 ''colormapLabel'' \<and>
            cells (imageOptionsObjs h') r0 ''imageType''
              = cells (imageOptionsObjs h) r0 ''imageType''"
    if "volumes d = v0 # vs \<and> imageOptionsArray (data d) = r0 # rs \<and>
        r0 < next_free (imageOptionsObjs h) \<and> r0 \<notin> lookedUp d vs" for v0 vs r0 rs
  proof -
    have "cells (imageOptionsObjs h') r0 = baseRefreshed v0 (cells (imageOptionsObjs h) r0)"
      using exportVolumes_base [OF v, of v0 vs r0 rs] that by (simp add: i)
    then show ?thesis
      by (auto simp: baseRefreshed_def orNaN_def)
  qed
  have 5: "\<forall>v0 vs r0 rs.
            volumes d = v0 # vs \<and> imageOptionsArray (data d) = r0 # rs \<and>
            r0 < next_free (imageOptionsObjs h) \<and> r0 \<notin> lookedUp d vs \<longrightarrow>
            cells (imageOptionsObjs h') r0 ''colormap'' = Some (VStr (colormap v0)) \<and>
            cells (imageOptionsObjs h') r0 ''opacity'' = Some (VNum (opacity v0)) \<and>
            (\<forall>n. cal_max v0 = Some n \<and> n \<noteq> Finite 0 \<longrightarrow>
               cells (imageOptionsObjs h') r0 ''cal_max'' = Some (VNum n)) \<and>
            (\<forall>n. cal_min v0 = Some n \<and> n \<noteq> Finite 0 \<longrightarrow>
               cells (imageOptionsObjs h') r0 ''cal_min'' = Some (VNum n)) \<and>
            (cal_max v0 = None \<longrightarrow>
               cells (imageOptionsObjs h') r0 ''cal_max'' = Some (VNum NaN)) \<and>
            (cal_min v0 = None \<longrightarrow>
               cells (imageOptionsObjs h') r0 ''cal_min'' = Some (VNum NaN)) \<and>
            cells (imageOptionsObjs h') r0 ''colormapLabel''
              = cells (imageOptionsObjs h) r0 ''colormapLabel'' \<and>
            cells (imageOptionsObjs h') r0 ''imageType''
              = cells (imageOptionsObjs h) r0 ''imageType''"
    by (intro allI impI) (rule 4)
  show ?thesis
    by (rule conjI [OF d conjI [OF 1 conjI [OF 2 conjI [OF 3 5]]]])
qed

text \<open>
  C2 as stated fails: after the export of a document whose base volume is shown with the
  color map \<open>hot\<close> at opacity one half, the registered record of that volume, which had
  \<open>gray\<close> and one, has \<open>hot\<close> and one half.
\<close>

theorem json_counterexample:
  "imageOptionsArray (data exampleRegistered) = [0, 1, 2] \<and>
   imageOption exampleRecordsHeap 0 ''colormap'' = VStr ''gray'' \<and>
   imageOption exampleRecordsHeap 0 ''opacity'' = VNum (Finite 1) \<and>
   fst (snd (json exampleEnv (exampleRegistered, exampleRecordsHeap))) = exampleRegistered \<and>
   imageOption (snd (snd (json exampleEnv (exampleRegistered, exampleRecordsHeap)))) 0 ''colormap''
     = VStr ''hot'' \<and>
   imageOption (snd (snd (json exampleEnv (exampleRegistered, exampleRecordsHeap)))) 0 ''opacity''
     = VNum (Finite (1 / 2))"
  by (simp add: json_unfold exportVolumes_def exportOpts_result overlayOptions_def
      getImageOptions_def refreshOverlay_def refreshBase_def setImageOption_def assign_def
      setConfigOption_def configOption_def imageOption_def getProp_def get_opts_def
      exampleRegistered_def exampleDocument_def exampleData_def newDocumentWith_def
      exampleRecordsHeap_def exampleOptionsHeap_def emptyHeap_def
      exampleVolume_def exampleOverlay_def exampleThird_def Let_def
      split: prod.splits outcome.splits)

theorem json_writes_display_fields_only_witness:
  "fst (snd (json exampleEnv (exampleRegistered, exampleRecordsHeap))) = exampleRegistered \<and>
   arrays (snd (snd (json exampleEnv (exampleRegistered, exampleRecordsHeap))))
     = arrays exampleRecordsHeap \<and>
   cells (configObjs (snd (snd (json exampleEnv (exampleRegistered, exampleRecordsHeap))))) 0
     = cells (configObjs exampleRecordsHeap) 0 \<and>
   cells (imageOptionsObjs (snd (snd (json exampleEnv (exampleRegistered, exampleRecordsHeap))))) 0
       ''name''
     = Some (VStr ''volume.nii'') \<and>
   cells (imageOptionsObjs (snd (snd (json exampleEnv (exampleRegistered, exampleRecordsHeap))))) 0
       ''cal_max''
     = Some (VNum (Finite 80))"
proof -
  obtain out d' h' where j: "json exampleEnv (exampleRegistered, exampleRecordsHeap) = (out, d', h')"
    by (metis prod_cases3)
  note t = json_writes_display_fields_only [OF j]
  have c: "(0::nat) < next_free (configObjs exampleRecordsHeap)"
    and i: "(0::nat) < next_free (imageOptionsObjs exampleRecordsHeap)"
    and n: "''name'' \<notin> displayFields"
    and n0: "cells (imageOptionsObjs exampleRecordsHeap) 0 ''name'' = Some (VStr ''volume.nii'')"
    by (simp_all add: exampleRecordsHeap_def exampleOptionsHeap_def displayFields_def)
  have l: "0 \<notin> lookedUp exampleRegistered [exampleOverlay, exampleThird]"
    by (simp add: lookedUp_def getImageOptions_def exampleRegistered_def exampleOverlay_def
        exampleThird_def)
  have b: "volumes exampleRegistered = exampleVolume # [exampleOverlay, exampleThird] \<and>
           imageOptionsArray (data exampleRegistered) = 0 # [1, 2] \<and>
           0 < next_free (imageOptionsObjs exampleRecordsHeap) \<and>
           0 \<notin> lookedUp exampleRegistered [exampleOverlay, exampleThird]"
    using i l by (simp add: exampleRegistered_def)
  from t have 1: "d' = exampleRegistered" and 2: "arrays h' = arrays exampleRecordsHeap"
    by simp_all
  have 3: "cells (configObjs h') 0 = cells (configObjs exampleRecordsHeap) 0"
    by (rule t [THEN conjunct2, THEN conjunct2, THEN conjunct1, rule_format, OF c])
  have "cells (imageOptionsObjs h') 0 ''name''
      = cells (imageOptionsObjs exampleRecordsHeap) 0 ''name''"
    by (rule t [THEN conjunct2, THEN conjunct2, THEN conjunct2, THEN conjunct1, rule_format,
          OF i, THEN conjunct1, rule_format, OF n])
  with n0 have 4: "cells (imageOptionsObjs h') 0 ''name'' = Some (VStr ''volume.nii'')"
    by simp
  have m: "cal_max exampleVolume = Some (Finite 80) \<and> Finite 80 \<noteq> Finite 0"
    by (simp add: exampleVolume_def)
  have 5: "cells (imageOptionsObjs h') 0 ''cal_max'' = Some (VNum (Finite 80))"
    by (rule t [THEN conjunct2, THEN conjunct2, THEN conjunct2, THEN conjunct2, rule_format,
          OF b, THEN conjunct2, THEN conjunct2, THEN conjunct1, rule_format, OF m])
  from j 1 2 3 4 5 show ?thesis by simp
qed

subsection \<open>The mesh-thickness sentinel\<close>






subsection \<open>Volumes without a load-option record\<close>

lemma overlayRefreshed_fields:
  "overlayRefreshed v ob ''colormap'' = Some (VStr (colormap v))"
  "overlayRefreshed v ob ''colormapLabel'' = Some (colormapLabel v)"
  "overlayRefreshed v ob ''opacity'' = Some (VNum (opacity v))"
  "cal_max v = Some n \<Longrightarrow> n \<noteq> Finite 0 \<Longrightarrow> overlayRefreshed v ob ''cal_max'' = Some (VNum n)"
  "cal_min v = Some n \<Longrightarrow> n \<noteq> Finite 0 \<Longrightarrow> overlayRefreshed v ob ''cal_min'' = Some (VNum n)"
  "cal_max v = None \<Longrightarrow> overlayRefreshed v ob ''cal_max'' = Some (VNum NaN)"
  "cal_min v = None \<Longrightarrow> overlayRefreshed v ob ''cal_min'' = Some (VNum NaN)"
  "k \<notin> {''colormap'', ''colormapLabel'', ''opacity'', ''cal_max'', ''cal_min''} \<Longrightarrow>
     overlayRefreshed v ob k = ob k"
  by (auto simp: overlayRefreshed_def orNaN_def)

text \<open>
  Where the code does what is claimed for a volume without a load-option record. Take a
  document whose load-option records are in the heap and in which no live volume after the
  first is mapped to an index outside the load-option sequence, and a live volume after
  the first whose identifier the registry does not map. Then \<open>json\<close> returns, with one
  exported record per live volume, and the record exported at that volume's position is a
  new object: the default record (empty name, color map \<open>gray\<close>, opacity one, calibration
  bounds \<open>NaN\<close>) with the color map, the color-map label and the opacity of the live
  volume, with each calibration bound of the live volume that is a number other than
  zero, and with \<open>NaN\<close> for a bound that the volume does not have.
\<close>

lemma json_defaults_unregistered_overlay:
  assumes "\<forall>r\<in>set (imageOptionsArray (data d)). r < next_free (imageOptionsObjs h)"
    and "\<forall>u\<in>set (tl (volumes d)). getImageOptions d u \<noteq> IsUndefined"
    and "0 < i" and "i < length (volumes d)"
    and "imageOptionsMap d (img_id (volumes d ! i)) = None"
  shows "\<exists>ex h'. json env (d, h) = (Return ex, d, h') \<and>
           length (exp_imageOptionsArray ex) = length (volumes d) \<and>
           next_free (imageOptionsObjs h) \<le> exp_imageOptionsArray ex ! i \<and>
           cells (imageOptionsObjs h') (exp_imageOptionsArray ex ! i) ''colormap''
             = Some (VStr (colormap (volumes d ! i))) \<and>
           cells (imageOptionsObjs h') (exp_imageOptionsArray ex ! i) ''colormapLabel''
             = Some (colormapLabel (volumes d ! i)) \<and>
           cells (imageOptionsObjs h') (exp_imageOptionsArray ex ! i) ''opacity''
             = Some (VNum (opacity (volumes d ! i))) \<and>
           (\<forall>n. cal_max (volumes d ! i) = Some n \<and> n \<noteq> Finite 0 \<longrightarrow>
              cells (imageOptionsObjs h') (exp_imageOptionsArray ex ! i) ''cal_max''
                = Some (VNum n)) \<and>
           (\<forall>n. cal_min (volumes d ! i) = Some n \<and> n \<noteq> Finite 0 \<longrightarrow>
              cells (imageOptionsObjs h') (exp_imageOptionsArray ex ! i) ''cal_min''
                = Some (VNum n)) \<and>
           (cal_max (volumes d ! i) = None \<longrightarrow>
              cells (imageOptionsObjs h') (exp_imageOptionsArray ex ! i) ''cal_max''
                = Some (VNum NaN)) \<and>
           (cal_min (volumes d ! i) = None \<longrightarrow>
              cells (imageOptionsObjs h') (exp_imageOptionsArray ex ! i) ''cal_min''
                = Some (VNum NaN)) \<and>
           (\<forall>k. k \<notin> {''colormap'', ''colormapLabel'', ''opacity'', ''cal_max'', ''cal_min''} \<longrightarrow>
              cells (imageOptionsObjs h') (exp_imageOptionsArray ex ! i) k
                = defaultImageOptions env k) \<and>
           defaultImageOptions env ''name'' = Some (VStr []) \<and>
           defaultImageOptions env ''colormap'' = Some (VStr ''gray'') \<and>
           defaultImageOptions env ''opacity'' = Some (VNum (Finite 1)) \<and>
           defaultImageOptions env ''cal_min'' = Some (VNum NaN) \<and>
           defaultImageOptions env ''cal_max'' = Some (VNum NaN)"
proof -
  let ?h1 = "snd (exportOpts d h)"
  have i1: "imageOptionsObjs ?h1 = imageOptionsObjs h"
    by (rule exportOpts_frame)
  from exportVolumes_returns [OF assms(2), of env ?h1]
  obtain arr' blobs' idx' dr h' where
    v: "exportVolumes env d ?h1 = (Return ((arr', blobs', idx'), dr), h')"
    by (metis prod_cases3)
  then obtain ex where j: "json env (d, h) = (Return ex, d, h')"
    and a: "exp_imageOptionsArray ex = arr'"
    by (simp add: json_unfold)
  from assms(1) have wf: "\<forall>r\<in>set (imageOptionsArray (data d)). r < next_free (imageOptionsObjs ?h1)"
    by (simp add: i1)
  note u = exportVolumes_unregistered [OF v wf assms(3,4,5)]
  have dflt: "defaultImageOptions env ''name'' = Some (VStr []) \<and>
           defaultImageOptions env ''colormap'' = Some (VStr ''gray'') \<and>
           defaultImageOptions env ''opacity'' = Some (VNum (Finite 1)) \<and>
           defaultImageOptions env ''cal_min'' = Some (VNum NaN) \<and>
           defaultImageOptions env ''cal_max'' = Some (VNum NaN)"
    by (simp add: defaultImageOptions_def)
  from u have l: "length (exp_imageOptionsArray ex) = length (volumes d)"
    and f: "next_free (imageOptionsObjs h) \<le> exp_imageOptionsArray ex ! i"
    and c: "cells (imageOptionsObjs h') (exp_imageOptionsArray ex ! i) =
              overlayRefreshed (volumes d ! i) (defaultImageOptions env)"
    by (simp_all add: a i1)
  let ?v = "volumes d ! i"
  let ?c = "cells (imageOptionsObjs h') (exp_imageOptionsArray ex ! i)"
  note r = overlayRefreshed_fields [where v = ?v and ob = "defaultImageOptions env"]
  have 1: "?c ''colormap'' = Some (VStr (colormap ?v))"
    and 2: "?c ''colormapLabel'' = Some (colormapLabel ?v)"
    and 3: "?c ''opacity'' = Some (VNum (opacity ?v))"
    unfolding c by (rule r)+
  have 4: "\<forall>n. cal_max ?v = Some n \<and> n \<noteq> Finite 0 \<longrightarrow> ?c ''cal_max'' = Some (VNum n)"
    and 5: "\<forall>n. cal_min ?v = Some n \<and> n \<noteq> Finite 0 \<longrightarrow> ?c ''cal_min'' = Some (VNum n)"
    and 6: "cal_max ?v = None \<longrightarrow> ?c ''cal_max'' = Some (VNum NaN)"
    and 7: "cal_min ?v = None \<longrightarrow> ?c ''cal_min'' = Some (VNum NaN)"
    and 8: "\<forall>k. k \<notin> {''colormap'', ''colormapLabel'', ''opacity'', ''cal_max'', ''cal_min''} \<longrightarrow>
              ?c k = defaultImageOptions env k"
    unfolding c using r(4-8) by blast+
  show ?thesis
    by (rule exI [of _ ex], rule exI [of _ h'])
      (rule conjI [OF j conjI [OF l conjI [OF f conjI [OF 1 conjI [OF 2 conjI [OF 3
         conjI [OF 4 conjI [OF 5 conjI [OF 6 conjI [OF 7 conjI [OF 8 dflt]]]]]]]]]]])
qed

text \<open>
  C6. For a live volume without a registered load-option record, export should not raise
  and should export a default record refreshed from the live volume's current values. The
  code falls short of this in two places. After \<open>removeImage\<close> of the first registered
  image, the last registered volume is mapped one place beyond the sequence; its lookup
  gives \<open>undefined\<close>, which the test \<open>=== null\<close> lets through, and the export of that
  document with an unregistered volume throws a \<open>TypeError\<close>. And the record
  synthesized for an unregistered volume whose lower calibration bound is zero has
  \<open>NaN\<close> for that bound, because the bound is assigned as \<open>volume.cal_min || NaN\<close>.
\<close>

theorem json_fails_for_unregistered_volume:
  "volumes exampleDesynced ! 2 = exampleUnregistered \<and>
   imageOptionsMap exampleDesynced (img_id exampleUnregistered) = None \<and>
   fst (json exampleEnv (exampleDesynced, exampleRecordsHeap)) = Throw inUndefined \<and>
   volumes exampleWithUnregistered ! 3 = exampleUnregistered \<and>
   imageOptionsMap exampleWithUnregistered (img_id exampleUnregistered) = None \<and>
   cal_min exampleUnregistered = Some (Finite 0) \<and>
   imageOption (snd (snd (json exampleEnv (exampleWithUnregistered, exampleRecordsHeap)))) 3 ''cal_min''
     = VNum NaN"
  by (simp add: json_unfold exportVolumes_def exportOpts_result overlayOptions_def
      getImageOptions_def refreshOverlay_def refreshBase_def setImageOption_def assign_def
      setConfigOption_def configOption_def imageOption_def getProp_def get_opts_def
      newImageOptions_def alloc_def orNaN_def inUndefined_def removeImage_def splice1_def
      exampleDesynced_def exampleWithUnregistered_def exampleUnregistered_def
      exampleRegistered_def exampleDocument_def exampleData_def newDocumentWith_def
      exampleRecordsHeap_def exampleOptionsHeap_def emptyHeap_def
      exampleVolume_def exampleOverlay_def exampleThird_def Let_def
      split: prod.splits outcome.splits)

end
